theory Spec2Isabelle
  imports Main "HOL-Library.Word" "HOL-Library.AList"
begin

section \<open>Values of the document\<close>

text \<open>
  The module \<^verbatim>\<open>lib/writeResources.js\<close> mutates a glTF document in place. The model
  passes every mutable object explicitly and returns it updated. A property that the
  JavaScript leaves \<^verbatim>\<open>undefined\<close> (or has deleted) is \<open>None\<close>.
\<close>

type_synonym bytes = "8 word list"

text \<open>What a \<^verbatim>\<open>uri\<close>, a \<^verbatim>\<open>bufferView\<close> or an entry of the written-resource map can hold.\<close>

datatype jsval = JNull | JNum nat | JStr string

text \<open>\<^verbatim>\<open>extras._pipeline.source\<close>: a string (shader text), a Buffer, or \<^verbatim>\<open>undefined\<close>.\<close>

datatype src = Undefined | Text string | Binary bytes

datatype error =
    TypeError
  | RuntimeError
  | ENOENT string
  | WriteError string
  | ProcessError string

text \<open>
  An exception leaves the objects as they were mutated up to the throw: the left
  summand carries the error together with that state.
\<close>

type_synonym 'a result = "(error \<times> 'a) + 'a"

record resource =
  name :: "string option"
  uri :: "jsval option"
  bufferView :: "jsval option"
  mimeType :: "jsval option"
  type :: "nat option"
  source :: src
  resourceId :: "string option"
  relativePath :: "string option"

record program =
  programName :: "string option"
  fragmentShader :: "nat option"
  vertexShader :: "nat option"

text \<open>
  A texture: its \<^verbatim>\<open>source\<close> (an image index) and its \<^verbatim>\<open>extensions\<close> object, kept as
  the list of extension names with the \<^verbatim>\<open>source\<close> each one records.
\<close>

record texture =
  textureSource :: "nat option"
  extensions :: "(string \<times> nat option) list option"

record bufferViewEntry =
  buffer :: nat
  byteOffset :: nat
  byteLength :: nat

record gltf =
  buffers :: "resource list"
  bufferViews :: "bufferViewEntry list"
  images :: "resource list"
  shaders :: "resource list"
  textures :: "texture list"
  programs :: "program list"
  extensionsRequired :: "string list option"

text \<open>\<^verbatim>\<open>options.bufferStorage\<close>, an object with one property \<^verbatim>\<open>buffer\<close>.\<close>

record bufferStorage =
  combinedBuffer :: "bytes option"

text \<open>
  The options after the defaults of lines 52 to 56. \<^verbatim>\<open>options.name\<close> is \<open>gltfName\<close>, the
  name \<^verbatim>\<open>getName\<close> gives it. \<^verbatim>\<open>separateResources\<close> keeps its keys in insertion order.
\<close>

record options =
  gltfName :: "string option"
  separateBuffers :: bool
  separateTextures :: bool
  separateShaders :: bool
  dataUris :: bool
  encodeBasis :: bool
  basisLinear :: bool
  basisQuality :: "nat option"
  decodeWebP :: bool
  jpegCompressionRatio :: "nat option"
  bufferStorage :: "bufferStorage option"
  separateResources :: "(string \<times> src) list option"

text \<open>
  What lies outside the process: the files of the temp directory, and the trace of the
  calls made on the file system and the external codecs, oldest first.
\<close>

datatype call =
    DWebpWrite string
  | FsWriteFile string
  | Exec string
  | FsReadFile string
  | FsUnlinkSync string
  | GmWrite string nat string

record world =
  files :: "string \<rightharpoonup> bytes"
  trace :: "call list"

text \<open>
  The objects one call of \<^verbatim>\<open>writeImage\<close>, \<^verbatim>\<open>writeShader\<close> or \<^verbatim>\<open>writeBuffer\<close> can reach
  and mutate. \<open>object\<close> is the image, shader or buffer of the call: an element of the
  document, held here while the call runs and stored back when it ends. The
  written-resource map is the plain object of line 59, read as the map of its own keys.
\<close>

record heap =
  gltf :: gltf
  object :: resource
  writtenResourceMap :: "string \<rightharpoonup> jsval"
  options :: options
  world :: world

text \<open>The state of one invocation of \<^verbatim>\<open>writeResources\<close> between two calls.\<close>

record state =
  document :: gltf
  written :: "string \<rightharpoonup> jsval"
  settings :: options
  outside :: world

text \<open>
  How a promise, or the callback that should settle it, ends: resolved with a value,
  rejected with an error, or left by an exception thrown inside a callback of the file
  system, which nothing catches.
\<close>

datatype 'a outcome = Resolved 'a | Rejected error | Uncaught error

section \<open>Library functions the module calls\<close>

text \<open>\<^verbatim>\<open>Cesium.defined\<close>: neither \<^verbatim>\<open>undefined\<close> nor \<^verbatim>\<open>null\<close>.\<close>

definition defined :: "jsval option \<Rightarrow> bool" where
  "defined v = (case v of None \<Rightarrow> False | Some JNull \<Rightarrow> False | Some _ \<Rightarrow> True)"

definition definedSource :: "src option \<Rightarrow> bool" where
  "definedSource v = (case v of None \<Rightarrow> False | Some Undefined \<Rightarrow> False | Some _ \<Rightarrow> True)"

text \<open>A number appended to a string: its decimal digits.\<close>

definition digit :: "nat \<Rightarrow> char" where
  "digit d = ''0123456789'' ! d"

fun numberToString :: "nat \<Rightarrow> string" where
  "numberToString n =
     (if n < 10 then [digit n] else numberToString (n div 10) @ [digit (n mod 10)])"

declare numberToString.simps [simp del]

text \<open>\<^verbatim>\<open>Buffer.from(string)\<close>: the bytes of the string.\<close>

definition bufferFrom :: "string \<Rightarrow> bytes" where
  "bufferFrom s = map (\<lambda>c. of_nat (of_char c)) s"

text \<open>\<^verbatim>\<open>buffer.toString('base64')\<close>: three bytes give four characters, padded with \<^verbatim>\<open>=\<close>.\<close>

definition base64Char :: "nat \<Rightarrow> char" where
  "base64Char n =
     ''ABCDEFGHIJKLMNOPQRSTUVWXYZabcdefghijklmnopqrstuvwxyz0123456789+/'' ! n"

fun base64Nat :: "nat list \<Rightarrow> string" where
  "base64Nat (a # b # c # rest) =
     [base64Char (a div 4), base64Char ((a mod 4) * 16 + b div 16),
      base64Char ((b mod 16) * 4 + c div 64), base64Char (c mod 64)] @ base64Nat rest"
| "base64Nat [a, b] =
     [base64Char (a div 4), base64Char ((a mod 4) * 16 + b div 16),
      base64Char ((b mod 16) * 4), CHR ''='']"
| "base64Nat [a] = [base64Char (a div 4), base64Char ((a mod 4) * 16), CHR ''='', CHR ''='']"
| "base64Nat [] = []"

definition base64 :: "bytes \<Rightarrow> string" where
  "base64 b = base64Nat (map unat b)"

text \<open>\<^verbatim>\<open>String.prototype.toLowerCase\<close> on ASCII letters.\<close>

definition toLowerCase :: "string \<Rightarrow> string" where
  "toLowerCase s =
     map (\<lambda>c. let n = (of_char c :: nat) in
                if 65 \<le> n \<and> n \<le> 90 then char_of (n + 32) else c) s"

text \<open>\<^verbatim>\<open>relativePath.replace(/\\/g, '/')\<close>.\<close>

definition replaceBackslashes :: "string \<Rightarrow> string" where
  "replaceBackslashes s = map (\<lambda>c. if c = CHR 0x5C then CHR ''/'' else c) s"

definition FRAGMENT_SHADER :: nat where
  "FRAGMENT_SHADER = 35632"

text \<open>
  The collaborators that are not part of the module: the \<^verbatim>\<open>mime\<close> table, the
  format sniffer, the external codecs, the errors of the file system, the temp directory,
  the identifiers \<^verbatim>\<open>uuidv4\<close> hands out (one for each image), and the two document passes.
  They are parameters of the model.
\<close>

record env =
  mime_getType :: "string \<Rightarrow> string option"
  sniff :: "bytes \<Rightarrow> error + string"
  dwebp :: "bytes \<Rightarrow> error + bytes"
  basisu :: "string \<Rightarrow> bytes \<Rightarrow> error option \<times> bytes option"
  gm :: "nat \<Rightarrow> bytes \<Rightarrow> error + bytes"
  writeFileError :: "string \<Rightarrow> error option"
  readFileError :: "string \<Rightarrow> error option"
  uuidv4 :: "nat \<Rightarrow> string"
  tmpdir :: string
  removeUnusedElements :: "gltf \<Rightarrow> gltf"
  mergeBuffers :: "gltf \<Rightarrow> string option \<Rightarrow> gltf"

text \<open>
  Modelled from the spec: \<^verbatim>\<open>addBuffer\<close> (lib/addBuffer.js is not among the sources), the
  append primitive of the buffer pool, \<^verbatim>\<open>appendToBufferPool(bytes)\<close> returning a bufferView
  index: the bytes become a new buffer, a new bufferView covers it, and the index of that
  bufferView is returned.
\<close>

definition newBuffer :: "bytes \<Rightarrow> resource" where
  "newBuffer b =
     \<lparr>name = None, uri = None, bufferView = None, mimeType = None, type = None,
      source = Binary b, resourceId = None, relativePath = None\<rparr>"

definition addBuffer :: "gltf \<Rightarrow> bytes \<Rightarrow> gltf \<times> nat" where
  "addBuffer g b =
     (g\<lparr>buffers := buffers g @ [newBuffer b],
        bufferViews := bufferViews g @
          [\<lparr>buffer = length (buffers g), byteOffset = 0, byteLength = length b\<rparr>]\<rparr>,
      length (bufferViews g))"

text \<open>
  Modelled from the spec: \<^verbatim>\<open>ForEach.program\<close> (lib/ForEach.js is not among the sources),
  scanning the programs in order and returning the first value the handler returns.
\<close>

fun forEachProgram :: "program list \<Rightarrow> nat \<Rightarrow> (program \<Rightarrow> nat \<Rightarrow> 'a option) \<Rightarrow> 'a option" where
  "forEachProgram [] index handler = None"
| "forEachProgram (p # ps) index handler =
     (case handler p index of
        Some v \<Rightarrow> Some v
      | None \<Rightarrow> forEachProgram ps (Suc index) handler)"

section \<open>Naming\<close>

definition getProgram :: "gltf \<Rightarrow> nat \<Rightarrow> (program \<times> nat) option" where
  "getProgram g shaderIndex =
     forEachProgram (programs g) 0
       (\<lambda>program index.
          if fragmentShader program = Some shaderIndex \<or> vertexShader program = Some shaderIndex
          then Some (program, index) else None)"

definition getName :: "gltf \<Rightarrow> resource \<Rightarrow> nat \<Rightarrow> string \<Rightarrow> options \<Rightarrow> error + string" where
  "getName g obj index extension opts =
     (case name obj of
        Some objectName \<Rightarrow> Inr objectName
      | None \<Rightarrow>
          if extension = ''.bin'' then
            (case gltfName opts of
               Some n \<Rightarrow> Inr (n @ numberToString index)
             | None \<Rightarrow> Inr (''buffer'' @ numberToString index))
          else if extension = ''.glsl'' then
            (case getProgram g index of
               None \<Rightarrow> Inl TypeError
             | Some (program, programIndex) \<Rightarrow>
                 let shaderType = (if type obj = Some FRAGMENT_SHADER then ''FS'' else ''VS'') in
                 (case programName program of
                    Some pn \<Rightarrow> Inr (pn @ shaderType)
                  | None \<Rightarrow>
                      (case gltfName opts of
                         Some n \<Rightarrow> Inr (n @ shaderType @ numberToString programIndex)
                       | None \<Rightarrow> Inr (toLowerCase shaderType @ numberToString programIndex))))
          else
            (case gltfName opts of
               Some n \<Rightarrow> Inr (n @ numberToString index)
             | None \<Rightarrow> Inr (''image'' @ numberToString index)))"

text \<open>
  The candidate paths of \<^verbatim>\<open>getRelativePath\<close>: \<^verbatim>\<open>name + '_' + number + extension\<close>. A path
  is taken when \<^verbatim>\<open>defined(options.separateResources[relativePath])\<close> holds.
\<close>

definition suffixed :: "string \<Rightarrow> string \<Rightarrow> nat \<Rightarrow> string" where
  "suffixed nm extension number = nm @ ''_'' @ numberToString number @ extension"

definition taken :: "(string \<times> src) list \<Rightarrow> string \<Rightarrow> bool" where
  "taken sr path = definedSource (map_of sr path)"

definition pending :: "(string \<times> src) list \<Rightarrow> string \<Rightarrow> string \<Rightarrow> nat \<Rightarrow> nat set" where
  "pending sr nm extension number = {k. number \<le> k \<and> taken sr (suffixed nm extension k)}"

subsection \<open>The collision loop terminates\<close>

lemma digit_inj: "a < 10 \<Longrightarrow> b < 10 \<Longrightarrow> digit a = digit b \<Longrightarrow> a = b"
proof -
  assume a: "a < 10" and b: "b < 10" and e: "digit a = digit b"
  have A: "a \<in> {0,1,2,3,4,5,6,7,8,9}" using a by auto
  have B: "b \<in> {0,1,2,3,4,5,6,7,8,9}" using b by auto
  show ?thesis using A B e by (auto simp: digit_def)
qed

lemma numberToString_nonempty: "numberToString n \<noteq> []"
  by (subst numberToString.simps) simp

lemma numberToString_inj: "numberToString n = numberToString m \<Longrightarrow> n = m"
proof (induction n arbitrary: m rule: numberToString.induct)
  case (1 n)
  show ?case
  proof (cases "n < 10")
    case True
    note n = this
    show ?thesis
    proof (cases "m < 10")
      case True
      with n "1.prems" show ?thesis
        by (simp add: numberToString.simps [of n] numberToString.simps [of m] digit_inj)
    next
      case False
      with n "1.prems" numberToString_nonempty [of "m div 10"] show ?thesis
        by (simp add: numberToString.simps [of n] numberToString.simps [of m])
    qed
  next
    case False
    note n = this
    show ?thesis
    proof (cases "m < 10")
      case True
      with n "1.prems" numberToString_nonempty [of "n div 10"] show ?thesis
        by (simp add: numberToString.simps [of n] numberToString.simps [of m])
    next
      case False
      with n "1.prems" have e: "numberToString (n div 10) = numberToString (m div 10)"
        and d: "digit (n mod 10) = digit (m mod 10)"
        by (simp_all add: numberToString.simps [of n] numberToString.simps [of m])
      from "1.IH" [OF n e] have "n div 10 = m div 10" .
      moreover from d have "n mod 10 = m mod 10" by (simp add: digit_inj)
      ultimately show ?thesis by (metis div_mult_mod_eq)
    qed
  qed
qed

lemma suffixed_inj: "suffixed nm extension a = suffixed nm extension b \<Longrightarrow> a = b"
  by (simp add: suffixed_def numberToString_inj)

lemma taken_key: "taken sr p \<Longrightarrow> p \<in> fst ` set sr"
  by (force simp: taken_def definedSource_def split: option.splits dest: map_of_SomeD)

lemma finite_pending: "finite (pending sr nm extension number)"
proof -
  have "pending sr nm extension number \<subseteq> suffixed nm extension -` (fst ` set sr)"
    by (auto simp: pending_def dest: taken_key)
  moreover have "finite (suffixed nm extension -` (fst ` set sr))"
    by (rule finite_vimageI) (auto simp: inj_on_def dest: suffixed_inj)
  ultimately show ?thesis by (rule finite_subset)
qed

lemma pending_Suc:
  "pending sr nm extension number =
     (if taken sr (suffixed nm extension number)
      then insert number (pending sr nm extension (Suc number))
      else pending sr nm extension (Suc number))"
  by (auto simp: pending_def Suc_le_eq le_less)

lemma card_pending_Suc:
  "card (pending sr nm extension (Suc number)) +
     (if taken sr (suffixed nm extension number) then 1 else 0) =
   card (pending sr nm extension number)"
proof (cases "taken sr (suffixed nm extension number)")
  case True
  have "number \<notin> pending sr nm extension (Suc number)" by (simp add: pending_def)
  with True finite_pending [of sr nm extension "Suc number"] show ?thesis
    by (subst (2) pending_Suc) simp
next
  case False
  then show ?thesis by (subst (2) pending_Suc) simp
qed

text \<open>
  The \<^verbatim>\<open>while\<close> loop of \<^verbatim>\<open>getRelativePath\<close> (lines 289 to 293), on the current
  \<^verbatim>\<open>relativePath\<close> and \<^verbatim>\<open>number\<close>. It terminates because the sink has finitely many keys
  and distinct numbers give distinct candidates.
\<close>

function freePath :: "(string \<times> src) list \<Rightarrow> string \<Rightarrow> string \<Rightarrow> string \<Rightarrow> nat \<Rightarrow> string" where
  "freePath sr nm extension path number =
     (if taken sr path
      then freePath sr nm extension (suffixed nm extension number) (Suc number)
      else path)"
  by pat_completeness auto
termination
proof (relation "measure (\<lambda>(sr, nm, extension, path, number).
          card (pending sr nm extension number) + (if taken sr path then 1 else 0))",
       goal_cases)
  case 1
  show ?case by simp
next
  case (2 sr nm extension path number)
  then show ?case
    using card_pending_Suc [of sr nm extension number] by simp
qed

declare freePath.simps [simp del]

text \<open>
  \<^verbatim>\<open>getRelativePath\<close>. Reading \<^verbatim>\<open>options.separateResources[relativePath]\<close> when
  \<^verbatim>\<open>options.separateResources\<close> is undefined throws a TypeError.
\<close>

definition getRelativePath :: "gltf \<Rightarrow> resource \<Rightarrow> nat \<Rightarrow> string \<Rightarrow> options \<Rightarrow> error + string" where
  "getRelativePath g obj index extension opts =
     (case relativePath obj of
        Some path \<Rightarrow> Inr (replaceBackslashes path)
      | None \<Rightarrow>
          (case getName g obj index extension opts of
             Inl e \<Rightarrow> Inl e
           | Inr nm \<Rightarrow>
               (case separateResources opts of
                  None \<Rightarrow> Inl TypeError
                | Some sr \<Rightarrow> Inr (freePath sr nm extension (nm @ extension) 1))))"

section \<open>The three representations\<close>

text \<open>\<^verbatim>\<open>source.toString('base64')\<close>: a string ignores the argument and returns itself.\<close>

definition toStringBase64 :: "src \<Rightarrow> string option" where
  "toStringBase64 s =
     (case s of Undefined \<Rightarrow> None | Text t \<Rightarrow> Some t | Binary b \<Rightarrow> Some (base64 b))"

text \<open>A \<^verbatim>\<open>null\<close> mime type concatenates as the string \<^verbatim>\<open>null\<close>.\<close>

definition mimeString :: "string option \<Rightarrow> string" where
  "mimeString m = (case m of None \<Rightarrow> ''null'' | Some t \<Rightarrow> t)"

definition writeDataUri :: "env \<Rightarrow> heap \<Rightarrow> string \<Rightarrow> heap result" where
  "writeDataUri env h extension =
     (let h1 = h\<lparr>object := (object h)\<lparr>bufferView := None\<rparr>\<rparr>;
          mimeType = mime_getType env extension
      in case toStringBase64 (source (object h1)) of
           None \<Rightarrow> Inl (TypeError, h1)
         | Some encoded \<Rightarrow>
             Inr (h1\<lparr>object := (object h1)
                    \<lparr>uri := Some (JStr (''data:'' @ mimeString mimeType @ '';base64,'' @ encoded))\<rparr>\<rparr>))"

text \<open>\<^verbatim>\<open>writtenResourceMap[resourceId]\<close>, undefined when the object has no \<^verbatim>\<open>resourceId\<close>.\<close>

definition cachedTarget :: "heap \<Rightarrow> jsval option" where
  "cachedTarget h =
     (case resourceId (object h) of None \<Rightarrow> None | Some r \<Rightarrow> writtenResourceMap h r)"

text \<open>
  \<^verbatim>\<open>writeBufferView\<close>. With an undefined source the append primitive has no bytes to take
  a length of, and throws.
\<close>

definition writeBufferView :: "heap \<Rightarrow> heap result" where
  "writeBufferView h =
     (let h1 = h\<lparr>object := (object h)\<lparr>uri := None\<rparr>\<rparr>;
          rid = resourceId (object h1);
          cached = cachedTarget h1
      in if rid \<noteq> None \<and> defined cached then
           Inr (h1\<lparr>object := (object h1)\<lparr>bufferView := cached\<rparr>\<rparr>)
         else
           (case (case source (object h1) of
                    Undefined \<Rightarrow> None
                  | Text t \<Rightarrow> Some (bufferFrom t)
                  | Binary b \<Rightarrow> Some b) of
              None \<Rightarrow> Inl (TypeError, h1)
            | Some b \<Rightarrow>
                let (g', bv) = addBuffer (gltf h1) b;
                    h2 = h1\<lparr>gltf := g', object := (object h1)\<lparr>bufferView := Some (JNum bv)\<rparr>\<rparr>
                in (case rid of
                      None \<Rightarrow> Inr h2
                    | Some r \<Rightarrow>
                        Inr (h2\<lparr>writtenResourceMap :=
                               (writtenResourceMap h2)(r \<mapsto> JNum bv)\<rparr>))))"

definition writeFile :: "heap \<Rightarrow> nat \<Rightarrow> string \<Rightarrow> heap result" where
  "writeFile h index extension =
     (let h1 = h\<lparr>object := (object h)\<lparr>bufferView := None\<rparr>\<rparr>;
          rid = resourceId (object h1);
          cached = cachedTarget h1
      in if rid \<noteq> None \<and> defined cached then
           Inr (h1\<lparr>object := (object h1)\<lparr>uri := cached\<rparr>\<rparr>)
         else
           (case getRelativePath (gltf h1) (object h1) index extension (options h1) of
              Inl e \<Rightarrow> Inl (e, h1)
            | Inr path \<Rightarrow>
                let h2 = h1\<lparr>object := (object h1)\<lparr>uri := Some (JStr path)\<rparr>\<rparr>;
                    h3 = (case separateResources (options h2) of
                            None \<Rightarrow> h2
                          | Some sr \<Rightarrow>
                              h2\<lparr>options := (options h2)
                                   \<lparr>separateResources :=
                                      Some (AList.update path (source (object h2)) sr)\<rparr>\<rparr>)
                in (case rid of
                      None \<Rightarrow> Inr h3
                    | Some r \<Rightarrow>
                        Inr (h3\<lparr>writtenResourceMap :=
                               (writtenResourceMap h3)(r \<mapsto> JStr path)\<rparr>))))"

definition writeResource :: "env \<Rightarrow> heap \<Rightarrow> nat \<Rightarrow> bool \<Rightarrow> bool \<Rightarrow> string \<Rightarrow> heap result" where
  "writeResource env h index separate dataUris' extension =
     (if separate then writeFile h index extension
      else if dataUris' then writeDataUri env h extension
      else writeBufferView h)"

section \<open>Shaders and buffers\<close>

definition writeShader :: "env \<Rightarrow> heap \<Rightarrow> nat \<Rightarrow> heap result" where
  "writeShader env h i =
     writeResource env h i (separateShaders (options h)) (dataUris (options h)) ''.glsl''"

text \<open>
  \<^verbatim>\<open>writeBufferStorage\<close>, called with \<^verbatim>\<open>options.bufferStorage\<close> defined. \<^verbatim>\<open>Buffer.concat\<close>
  throws a TypeError on an element that is not a Buffer.
\<close>

definition writeBufferStorage :: "heap \<Rightarrow> bufferStorage \<Rightarrow> heap result" where
  "writeBufferStorage h storage =
     (let combined = (case combinedBuffer storage of Some b \<Rightarrow> b | None \<Rightarrow> [])
      in case source (object h) of
           Binary b \<Rightarrow>
             Inr (h\<lparr>options := (options h)
                    \<lparr>bufferStorage := Some (storage\<lparr>combinedBuffer := Some (combined @ b)\<rparr>)\<rparr>\<rparr>)
         | _ \<Rightarrow> Inl (TypeError, h))"

definition writeBuffer :: "env \<Rightarrow> heap \<Rightarrow> nat \<Rightarrow> heap result" where
  "writeBuffer env h i =
     (case bufferStorage (options h) of
        Some storage \<Rightarrow>
          if \<not> separateBuffers (options h) then writeBufferStorage h storage
          else writeResource env h i (separateBuffers (options h)) True ''.bin''
      | None \<Rightarrow> writeResource env h i (separateBuffers (options h)) True ''.bin'')"

section \<open>The image pipeline\<close>

text \<open>
  Modelled from the spec: \<^verbatim>\<open>getImageExtension\<close> (lib/getImageExtension.js is not among
  the sources), \<^verbatim>\<open>sniff(bytes)\<close> returning a format extension. It inspects the bytes of
  a Buffer; the sniffer itself is the parameter \<open>sniff\<close>.
\<close>

definition getImageExtension :: "env \<Rightarrow> src \<Rightarrow> error + string" where
  "getImageExtension env s = (case s of Binary b \<Rightarrow> sniff env b | _ \<Rightarrow> Inl TypeError)"

text \<open>
  Modelled from the spec: \<^verbatim>\<open>addExtensionsRequired\<close> (lib/addExtensionsRequired.js is not
  among the sources), marking a capability as required by the document, once.
\<close>

definition addExtensionsRequired :: "gltf \<Rightarrow> string \<Rightarrow> gltf" where
  "addExtensionsRequired g extension =
     g\<lparr>extensionsRequired :=
         Some (case extensionsRequired g of
                 None \<Rightarrow> [extension]
               | Some required \<Rightarrow>
                   if extension \<in> set required then required else required @ [extension])\<rparr>"

definition logCall :: "call \<Rightarrow> heap \<Rightarrow> heap" where
  "logCall c h = h\<lparr>world := (world h)\<lparr>trace := trace (world h) @ [c]\<rparr>\<rparr>"

definition putFile :: "string \<Rightarrow> bytes \<Rightarrow> heap \<Rightarrow> heap" where
  "putFile path b h = h\<lparr>world := (world h)\<lparr>files := (files (world h))(path \<mapsto> b)\<rparr>\<rparr>"

definition removeFile :: "string \<Rightarrow> heap \<Rightarrow> heap" where
  "removeFile path h = h\<lparr>world := (world h)\<lparr>files := (files (world h))(path := None)\<rparr>\<rparr>"

definition setSource :: "src \<Rightarrow> heap \<Rightarrow> heap" where
  "setSource s h = h\<lparr>object := (object h)\<lparr>source := s\<rparr>\<rparr>"

text \<open>\<^verbatim>\<open>`${os.tmpdir()}/image-${uid}${extension}`\<close>\<close>

definition tempFile :: "env \<Rightarrow> string \<Rightarrow> string \<Rightarrow> string" where
  "tempFile env uid extension = tmpdir env @ ''/image-'' @ uid @ extension"

text \<open>A number in a condition is true when it is defined and not zero.\<close>

definition truthy :: "nat option \<Rightarrow> bool" where
  "truthy v = (case v of None \<Rightarrow> False | Some n \<Rightarrow> n \<noteq> 0)"

text \<open>
  The executor of the first promise (lines 107 to 128): sniff the source, then decode a
  WebP into a PNG file, or write the source to a temp file. An exception thrown by the
  executor rejects the promise.
\<close>

definition writeTemp :: "env \<Rightarrow> string \<Rightarrow> heap \<Rightarrow> heap \<times> string outcome" where
  "writeTemp env uid h =
     (case getImageExtension env (source (object h)) of
        Inl e \<Rightarrow> (h, Rejected e)
      | Inr extension \<Rightarrow>
          (case source (object h) of
             Binary b \<Rightarrow>
               if extension = ''.webp'' \<and> decodeWebP (options h) then
                 (let path = tempFile env uid ''.png'';
                      h1 = logCall (DWebpWrite path) h
                  in case dwebp env b of
                       Inl err \<Rightarrow> (h1, Rejected err)
                     | Inr png \<Rightarrow> (putFile path png h1, Resolved ''.png''))
               else
                 (let path = tempFile env uid extension;
                      h1 = logCall (FsWriteFile path) h
                  in case writeFileError env path of
                       Some err \<Rightarrow> (h1, Rejected err)
                     | None \<Rightarrow> (putFile path b h1, Resolved extension))
           | _ \<Rightarrow> (h, Rejected TypeError)))"

text \<open>The command line of line 132.\<close>

definition basisuCommand :: "env \<Rightarrow> options \<Rightarrow> string \<Rightarrow> string \<Rightarrow> string" where
  "basisuCommand env opts uid extension =
     ''basisu -ktx2 -mipmap '' @ (if basisLinear opts then ''-linear'' else []) @ '' '' @
     (if truthy (basisQuality opts)
      then ''-q '' @ numberToString (case basisQuality opts of Some q \<Rightarrow> q | None \<Rightarrow> 0)
      else []) @
     '' '' @ tempFile env uid extension @ '' -output_path '' @ tmpdir env"

text \<open>
  \<^verbatim>\<open>fs.readFile\<close>: it fails when the file does not exist, and may fail on a file that
  exists.
\<close>

definition readFile :: "env \<Rightarrow> string \<Rightarrow> heap \<Rightarrow> error + bytes" where
  "readFile env path h =
     (case files (world h) path of
        None \<Rightarrow> Inl (ENOENT path)
      | Some d \<Rightarrow> (case readFileError env path of Some err \<Rightarrow> Inl err | None \<Rightarrow> Inr d))"

text \<open>
  The basis branch (lines 131 to 147). The encoder reads the temp file and may report an
  error and may leave \<^verbatim>\<open>image-<uid>.ktx2\<close>. The callback goes on after \<^verbatim>\<open>reject\<close>: the file
  is read, the source is replaced by what was read (\<^verbatim>\<open>undefined\<close> when the read failed)
  and the temp file is unlinked. The first \<^verbatim>\<open>reject\<close> settles the promise; a later
  \<^verbatim>\<open>resolve\<close> has no effect. \<^verbatim>\<open>fs.unlinkSync\<close> throws when the file does not exist.
\<close>

definition encodeBasisStage :: "env \<Rightarrow> string \<Rightarrow> string \<Rightarrow> heap \<Rightarrow> heap \<times> string outcome" where
  "encodeBasisStage env uid extension h =
     (let command = basisuCommand env (options h) uid extension;
          original = tempFile env uid extension;
          output = tempFile env uid ''.ktx2'';
          h1 = logCall (Exec command) h;
          ran = (case files (world h1) original of
                   None \<Rightarrow> (Some (ProcessError command), None)
                 | Some input \<Rightarrow> basisu env command input);
          h2 = (case snd ran of None \<Rightarrow> h1 | Some encoded \<Rightarrow> putFile output encoded h1);
          h3 = logCall (FsReadFile output) h2;
          data = readFile env output h3;
          h4 = setSource (case data of Inl _ \<Rightarrow> Undefined | Inr d \<Rightarrow> Binary d) h3;
          h5 = logCall (FsUnlinkSync original) h4
      in case files (world h5) original of
           None \<Rightarrow> (h5, Uncaught (ENOENT original))
         | Some _ \<Rightarrow>
             (removeFile original h5,
              case fst ran of
                Some error \<Rightarrow> Rejected error
              | None \<Rightarrow>
                  (case data of
                     Inl err \<Rightarrow> Rejected err
                   | Inr _ \<Rightarrow> Resolved ''.ktx2'')))"

text \<open>The JPEG branch (lines 150 to 160): \<^verbatim>\<open>gm\<close> reads the temp file and writes a sibling.\<close>

definition jpegStage :: "env \<Rightarrow> string \<Rightarrow> string \<Rightarrow> nat \<Rightarrow> heap \<Rightarrow> heap \<times> string outcome" where
  "jpegStage env uid extension quality h =
     (let original = tempFile env uid extension;
          output = tempFile env uid ''.jpg'';
          h1 = logCall (GmWrite original quality output) h
      in case files (world h1) original of
           None \<Rightarrow> (h1, Rejected (ENOENT original))
         | Some input \<Rightarrow>
             (case gm env quality input of
                Inl err \<Rightarrow> (h1, Rejected err)
              | Inr jpeg \<Rightarrow> (putFile output jpeg h1, Resolved ''.jpg'')))"

text \<open>The second promise (lines 129 to 164).\<close>

definition transcode :: "env \<Rightarrow> string \<Rightarrow> string \<Rightarrow> heap \<Rightarrow> heap \<times> string outcome" where
  "transcode env uid extension h =
     (if encodeBasis (options h) \<and> extension \<noteq> ''ktx2'' then encodeBasisStage env uid extension h
      else if truthy (jpegCompressionRatio (options h)) then
        jpegStage env uid extension
          (case jpegCompressionRatio (options h) of Some q \<Rightarrow> q | None \<Rightarrow> 0) h
      else (h, Resolved extension))"

text \<open>
  The third promise (lines 165 to 177). As in the basis branch the callback goes on after
  \<^verbatim>\<open>reject\<close>, and unlinking a file that does not exist throws.
\<close>

definition readBack :: "env \<Rightarrow> string \<Rightarrow> string \<Rightarrow> heap \<Rightarrow> heap \<times> unit outcome" where
  "readBack env uid extension h =
     (let path = tempFile env uid extension;
          h1 = logCall (FsReadFile path) h;
          data = readFile env path h1;
          h2 = setSource (case data of Inl _ \<Rightarrow> Undefined | Inr d \<Rightarrow> Binary d) h1;
          h3 = logCall (FsUnlinkSync path) h2
      in case files (world h3) path of
           None \<Rightarrow> (h3, Uncaught (ENOENT path))
         | Some _ \<Rightarrow>
             (removeFile path h3,
              case data of Inl err \<Rightarrow> Rejected err | Inr _ \<Rightarrow> Resolved ()))"

text \<open>
  The last handler (lines 178 to 189). An exception thrown inside \<^verbatim>\<open>then\<close> rejects the
  promise.
\<close>

definition mimeValue :: "string option \<Rightarrow> jsval" where
  "mimeValue m = (case m of None \<Rightarrow> JNull | Some t \<Rightarrow> JStr t)"

definition finishImage :: "env \<Rightarrow> nat \<Rightarrow> heap \<Rightarrow> heap \<times> unit outcome" where
  "finishImage env i h =
     (case getImageExtension env (source (object h)) of
        Inl e \<Rightarrow> (h, Rejected e)
      | Inr extension \<Rightarrow>
          (case writeResource env h i (separateTextures (options h)) (dataUris (options h))
                  extension of
             Inl (e, h') \<Rightarrow> (h', Rejected e)
           | Inr h1 \<Rightarrow>
               let h2 = (if extension = ''.ktx2''
                         then h1\<lparr>gltf := addExtensionsRequired (gltf h1) ''KHR_texture_basisu''\<rparr>
                         else h1);
                   h3 = (if defined (bufferView (object h2))
                         then h2\<lparr>object := (object h2)
                                \<lparr>mimeType := Some (mimeValue (mime_getType env extension))\<rparr>\<rparr>
                         else h2)
               in (h3, Resolved ())))"

text \<open>\<^verbatim>\<open>promise.then(handler)\<close>: the handler runs when the promise resolved.\<close>

definition andThen ::
  "heap \<times> 'a outcome \<Rightarrow> ('a \<Rightarrow> heap \<Rightarrow> heap \<times> 'b outcome) \<Rightarrow> heap \<times> 'b outcome" where
  "andThen p handler =
     (case snd p of
        Resolved v \<Rightarrow> handler v (fst p)
      | Rejected e \<Rightarrow> (fst p, Rejected e)
      | Uncaught e \<Rightarrow> (fst p, Uncaught e))"

text \<open>The chain of \<^verbatim>\<open>writeImage\<close> on the image held in \<open>object\<close>.\<close>

definition imageChain :: "env \<Rightarrow> nat \<Rightarrow> heap \<Rightarrow> heap \<times> unit outcome" where
  "imageChain env i h =
     (let uid = uuidv4 env i in
      andThen
        (andThen
           (andThen (writeTemp env uid h) (\<lambda>extension. transcode env uid extension))
           (\<lambda>extension. readBack env uid extension))
        (\<lambda>_. finishImage env i))"

section \<open>The passes of writeResources\<close>

text \<open>An element of the document enters a call as \<open>object\<close> and is stored back after it.\<close>

definition enter :: "state \<Rightarrow> resource \<Rightarrow> heap" where
  "enter st obj =
     \<lparr>gltf = document st, object = obj, writtenResourceMap = written st,
      options = settings st, world = outside st\<rparr>"

definition leaveImage :: "nat \<Rightarrow> heap \<Rightarrow> state" where
  "leaveImage i h =
     \<lparr>document = (gltf h)\<lparr>images := (images (gltf h))[i := object h]\<rparr>,
      written = writtenResourceMap h, settings = options h, outside = world h\<rparr>"

definition leaveShader :: "nat \<Rightarrow> heap \<Rightarrow> state" where
  "leaveShader i h =
     \<lparr>document = (gltf h)\<lparr>shaders := (shaders (gltf h))[i := object h]\<rparr>,
      written = writtenResourceMap h, settings = options h, outside = world h\<rparr>"

definition leaveBuffer :: "nat \<Rightarrow> heap \<Rightarrow> state" where
  "leaveBuffer i h =
     \<lparr>document = (gltf h)\<lparr>buffers := (buffers (gltf h))[i := object h]\<rparr>,
      written = writtenResourceMap h, settings = options h, outside = world h\<rparr>"

text \<open>\<^verbatim>\<open>writeImage\<close> on the image at index \<open>i\<close> of the document.\<close>

definition writeImage :: "env \<Rightarrow> nat \<Rightarrow> state \<Rightarrow> state \<times> unit outcome" where
  "writeImage env i st =
     (let r = imageChain env i (enter st (images (document st) ! i))
      in (leaveImage i (fst r), snd r))"

text \<open>
  Modelled from the spec: \<^verbatim>\<open>ForEach.imageAsync\<close> (lib/ForEach.js is not among the sources).
  Every image is transcoded and externalized on its own, with no defined completion order,
  and the first failure rejects. Only the last handler of a chain touches what the chains
  share, and each chain has temp files of its own, so a run is given by the order in
  which the chains complete: \<open>order\<close> lists the image indices in that order. The state
  returned with a failure is the state at the moment of the rejection.
\<close>

fun imageAsync :: "env \<Rightarrow> nat list \<Rightarrow> state \<Rightarrow> state \<times> unit outcome" where
  "imageAsync env [] st = (st, Resolved ())"
| "imageAsync env (i # rest) st =
     (case writeImage env i st of
        (st', Resolved _) \<Rightarrow> imageAsync env rest st'
      | (st', Rejected e) \<Rightarrow> (st', Rejected e)
      | (st', Uncaught e) \<Rightarrow> (st', Uncaught e))"

text \<open>
  Modelled from the spec: \<^verbatim>\<open>ForEach.shader\<close> and \<^verbatim>\<open>ForEach.buffer\<close> (lib/ForEach.js is not
  among the sources), calling the handler on every element in index order.
\<close>

fun forEachShader :: "env \<Rightarrow> nat list \<Rightarrow> state \<Rightarrow> state result" where
  "forEachShader env [] st = Inr st"
| "forEachShader env (i # rest) st =
     (case writeShader env (enter st (shaders (document st) ! i)) i of
        Inl (e, h) \<Rightarrow> Inl (e, leaveShader i h)
      | Inr h \<Rightarrow> forEachShader env rest (leaveShader i h))"

fun forEachBuffer :: "env \<Rightarrow> nat list \<Rightarrow> state \<Rightarrow> state result" where
  "forEachBuffer env [] st = Inr st"
| "forEachBuffer env (i # rest) st =
     (case writeBuffer env (enter st (buffers (document st) ! i)) i of
        Inl (e, h) \<Rightarrow> Inl (e, leaveBuffer i h)
      | Inr h \<Rightarrow> forEachBuffer env rest (leaveBuffer i h))"

text \<open>The handler of \<^verbatim>\<open>ForEach.texture\<close> (lines 77 to 85).\<close>

definition basisTexture :: "options \<Rightarrow> texture \<Rightarrow> texture" where
  "basisTexture opts t =
     (if encodeBasis opts
      then t\<lparr>extensions := Some [(''KHR_texture_basisu'', textureSource t)]\<rparr>
      else t)"

text \<open>
  \<^verbatim>\<open>writeResources\<close>. An exception thrown by the shader or the buffer pass rejects the
  promise the function returns, as a rejected image does.
\<close>

definition writeResources ::
  "env \<Rightarrow> nat list \<Rightarrow> gltf \<Rightarrow> options \<Rightarrow> world \<Rightarrow> state \<times> gltf outcome" where
  "writeResources env order g opts w =
     (let st0 = \<lparr>document = g, written = Map.empty, settings = opts, outside = w\<rparr>
      in case imageAsync env order st0 of
           (st1, Rejected e) \<Rightarrow> (st1, Rejected e)
         | (st1, Uncaught e) \<Rightarrow> (st1, Uncaught e)
         | (st1, Resolved _) \<Rightarrow>
             (case forEachShader env [0..<length (shaders (document st1))] st1 of
                Inl (e, st2) \<Rightarrow> (st2, Rejected e)
              | Inr st2 \<Rightarrow>
                  let st3 = st2\<lparr>document :=
                              mergeBuffers env (removeUnusedElements env (document st2))
                                (gltfName (settings st2))\<rparr>
                  in (case forEachBuffer env [0..<length (buffers (document st3))] st3 of
                        Inl (e, st4) \<Rightarrow> (st4, Rejected e)
                      | Inr st4 \<Rightarrow>
                          let st5 = st4\<lparr>document := (document st4)
                                      \<lparr>textures := map (basisTexture (settings st4))
                                                     (textures (document st4))\<rparr>\<rparr>
                          in (st5, Resolved (document st5)))))"

section \<open>Resources that share a resourceId\<close>









text \<open>
  The two document passes remove and merge buffers and bufferViews, and renumber the
  references to the bufferViews that remain. What is asked of such a pass here: it leaves
  the images and the shaders in place, each with its \<^verbatim>\<open>uri\<close> and \<^verbatim>\<open>resourceId\<close>, and the new
  \<^verbatim>\<open>bufferView\<close> of an image or a shader depends on its old \<^verbatim>\<open>bufferView\<close> alone.
\<close>

definition reindex :: "(jsval option \<Rightarrow> jsval option) \<Rightarrow> resource \<Rightarrow> resource" where
  "reindex f obj = obj\<lparr>bufferView := f (bufferView obj)\<rparr>"


section \<open>Notions used to state the properties of the whole operation\<close>

text \<open>A resource that holds exactly one of \<^verbatim>\<open>uri\<close> and \<^verbatim>\<open>bufferView\<close>.\<close>

definition externalized :: "resource \<Rightarrow> bool" where
  "externalized obj =
     (if bufferView obj = None then defined (uri obj)
      else uri obj = None \<and> defined (bufferView obj))"

text \<open>
  The error with which the transcode of the image held in \<open>object\<close> fails, if it does: the
  rejection of the first of the three promises that rejects (the decode or the temp-file
  write; the encoder, the read of its output, or the JPEG re-encoder; the read-back).
\<close>

definition transcodeFailure :: "env \<Rightarrow> nat \<Rightarrow> heap \<Rightarrow> error option" where
  "transcodeFailure env i h =
     (let uid = uuidv4 env i in
      case writeTemp env uid h of
        (h1, Rejected e) \<Rightarrow> Some e
      | (h1, Uncaught e) \<Rightarrow> None
      | (h1, Resolved x1) \<Rightarrow>
          (case transcode env uid x1 h1 of
             (h2, Rejected e) \<Rightarrow> Some e
           | (h2, Uncaught e) \<Rightarrow> None
           | (h2, Resolved x2) \<Rightarrow>
               (case readBack env uid x2 h2 of
                  (h3, Rejected e) \<Rightarrow> Some e
                | (h3, Uncaught e) \<Rightarrow> None
                | (h3, Resolved u) \<Rightarrow> None)))"


text \<open>The calls of the trace that run the JPEG re-encoder.\<close>

definition isGmWrite :: "call \<Rightarrow> bool" where
  "isGmWrite c = (case c of GmWrite _ _ _ \<Rightarrow> True | _ \<Rightarrow> False)"

section \<open>An environment and documents to run the model on\<close>

text \<open>
  A small instance of the collaborators: the usual mime types, a sniffer that reads the
  magic numbers of the image formats, codecs that succeed with a short file of the target
  format, a writable temp directory, and document passes that find nothing to remove or
  to merge.
\<close>

definition exampleMime :: "string \<Rightarrow> string option" where
  "exampleMime extension =
     (if extension = ''.bin'' then Some ''application/octet-stream''
      else if extension = ''.glsl'' then Some ''text/plain''
      else if extension = ''.png'' then Some ''image/png''
      else if extension = ''.jpg'' then Some ''image/jpeg''
      else if extension = ''.webp'' then Some ''image/webp''
      else if extension = ''.ktx2'' then Some ''image/ktx2''
      else None)"

definition exampleSniff :: "bytes \<Rightarrow> error + string" where
  "exampleSniff b =
     (if take 2 b = [0xFF, 0xD8] then Inr ''.jpg''
      else if take 2 b = [0x89, 0x50] then Inr ''.png''
      else if take 2 b = [0xAB, 0x4B] then Inr ''.ktx2''
      else if take 4 b = [0x52, 0x49, 0x46, 0x46] then Inr ''.webp''
      else Inl RuntimeError)"

definition pngBytes :: bytes where
  "pngBytes = [0x89, 0x50, 0x4E, 0x47]"

definition jpgBytes :: bytes where
  "jpgBytes = [0xFF, 0xD8, 0xFF]"

definition ktx2Bytes :: bytes where
  "ktx2Bytes = [0xAB, 0x4B, 0x54, 0x58]"

definition exampleEnv :: env where
  "exampleEnv =
     \<lparr>mime_getType = exampleMime,
      sniff = exampleSniff,
      dwebp = (\<lambda>b. Inr pngBytes),
      basisu = (\<lambda>command b. (None, Some ktx2Bytes)),
      gm = (\<lambda>quality b. Inr jpgBytes),
      writeFileError = (\<lambda>path. None),
      readFileError = (\<lambda>path. None),
      uuidv4 = (\<lambda>i. ''uid'' @ numberToString i),
      tmpdir = ''/tmp'',
      removeUnusedElements = (\<lambda>g. g),
      mergeBuffers = (\<lambda>g n. g)\<rparr>"

definition plainOptions :: options where
  "plainOptions =
     \<lparr>gltfName = None, separateBuffers = False, separateTextures = False,
      separateShaders = False, dataUris = False, encodeBasis = False, basisLinear = False,
      basisQuality = None, decodeWebP = False, jpegCompressionRatio = None,
      bufferStorage = None, separateResources = None\<rparr>"

definition emptyGltf :: gltf where
  "emptyGltf =
     \<lparr>buffers = [], bufferViews = [], images = [], shaders = [], textures = [],
      programs = [], extensionsRequired = None\<rparr>"

definition emptyWorld :: world where
  "emptyWorld = \<lparr>files = Map.empty, trace = []\<rparr>"

text \<open>A resource with the given source and nothing else.\<close>

definition bare :: "src \<Rightarrow> resource" where
  "bare s =
     \<lparr>name = None, uri = None, bufferView = None, mimeType = None, type = None,
      source = s, resourceId = None, relativePath = None\<rparr>"

definition exampleHeap :: "resource \<Rightarrow> options \<Rightarrow> heap" where
  "exampleHeap obj opts =
     \<lparr>gltf = emptyGltf, object = obj, writtenResourceMap = Map.empty, options = opts,
      world = emptyWorld\<rparr>"

text \<open>A PNG image that came with both a \<^verbatim>\<open>uri\<close> and a \<^verbatim>\<open>bufferView\<close>.\<close>

definition bothTargets :: resource where
  "bothTargets =
     (bare (Binary pngBytes))\<lparr>uri := Some (JStr ''old.png''), bufferView := Some (JNum 3)\<rparr>"

text \<open>Options that write buffers and images to files, with the given sink.\<close>

definition sinkOptions :: "(string \<times> src) list \<Rightarrow> options" where
  "sinkOptions sr =
     plainOptions\<lparr>separateBuffers := True, separateTextures := True,
                  separateResources := Some sr\<rparr>"

text \<open>A PNG image with the explicit name \<^verbatim>\<open>tex\<close>.\<close>

definition namedTex :: resource where
  "namedTex = (bare (Binary pngBytes))\<lparr>name := Some ''tex''\<rparr>"









text \<open>A document with one KTX2 image.\<close>

definition ktx2Image :: gltf where
  "ktx2Image = emptyGltf\<lparr>images := [bare (Binary ktx2Bytes)]\<rparr>"

text \<open>
  An environment whose WebP decoder fails, and a document with a PNG image and a WebP
  image.
\<close>

definition webpBytes :: bytes where
  "webpBytes = [0x52, 0x49, 0x46, 0x46]"

definition failingDecoderEnv :: env where
  "failingDecoderEnv = exampleEnv\<lparr>dwebp := (\<lambda>b. Inl (ProcessError ''dwebp''))\<rparr>"

definition twoImages :: gltf where
  "twoImages = emptyGltf\<lparr>images := [bare (Binary pngBytes), bare (Binary webpBytes)]\<rparr>"


section \<open>Facts used by several properties\<close>

lemma defined_simps [simp]:
  "defined None = False" "defined (Some JNull) = False"
  "defined (Some (JNum n)) = True" "defined (Some (JStr s)) = True"
  by (simp_all add: defined_def)

lemma numberToString_0: "numberToString 0 = ''0''"
  by code_simp

lemma numberToString_1: "numberToString 1 = ''1''"
  by code_simp

lemmas example_defs =
  exampleHeap_def bare_def plainOptions_def emptyGltf_def emptyWorld_def
  exampleEnv_def exampleMime_def pngBytes_def jpgBytes_def ktx2Bytes_def

lemma writeDataUri_target:
  "writeDataUri env h extension = Inr h' \<Longrightarrow>
     defined (uri (object h')) \<and> bufferView (object h') = None"
  by (auto simp: defined_simps writeDataUri_def Let_def split: option.splits)

lemma writeFile_target:
  "writeFile h index extension = Inr h' \<Longrightarrow>
     defined (uri (object h')) \<and> bufferView (object h') = None"
  by (auto simp: defined_simps writeFile_def Let_def cachedTarget_def
      split: option.splits sum.splits if_splits)

lemma writeBufferView_target:
  "writeBufferView h = Inr h' \<Longrightarrow>
     uri (object h') = None \<and> defined (bufferView (object h'))"
  by (auto simp: defined_simps writeBufferView_def Let_def cachedTarget_def addBuffer_def
      split: option.splits sum.splits if_splits src.splits)

section \<open>Properties\<close>

text \<open>
  C2. After \<^verbatim>\<open>writeResource\<close> has externalized a resource, the resource holds exactly one
  of \<^verbatim>\<open>uri\<close> and \<^verbatim>\<open>bufferView\<close>: on the separate-file and the data-URI path a defined
  \<^verbatim>\<open>uri\<close> and no \<^verbatim>\<open>bufferView\<close>, on the bufferView path a defined \<^verbatim>\<open>bufferView\<close> and no
  \<^verbatim>\<open>uri\<close>, whatever the resource held before.
\<close>

theorem writeResource_one_target:
  "writeResource env h index separate d extension = Inr h' \<Longrightarrow>
     (if separate \<or> d
      then defined (uri (object h')) \<and> bufferView (object h') = None
      else uri (object h') = None \<and> defined (bufferView (object h')))"
  by (auto simp: writeResource_def
      dest: writeDataUri_target writeFile_target writeBufferView_target split: if_splits)

text \<open>The three paths on a PNG image that came with both a \<^verbatim>\<open>uri\<close> and a \<^verbatim>\<open>bufferView\<close>.\<close>

theorem writeResource_one_target_witness:
  "(\<exists>h'. writeResource exampleEnv (exampleHeap bothTargets plainOptions) 0 False False ''.png''
            = Inr h'
      \<and> uri (object h') = None \<and> defined (bufferView (object h'))) \<and>
   (\<exists>h'. writeResource exampleEnv (exampleHeap bothTargets plainOptions) 0 False True ''.png''
            = Inr h'
      \<and> defined (uri (object h')) \<and> bufferView (object h') = None) \<and>
   (\<exists>h'. writeResource exampleEnv
            (exampleHeap bothTargets (plainOptions\<lparr>separateResources := Some []\<rparr>))
            0 True False ''.png'' = Inr h'
      \<and> defined (uri (object h')) \<and> bufferView (object h') = None)"
proof -
  obtain h1 where e1:
    "writeResource exampleEnv (exampleHeap bothTargets plainOptions) 0 False False ''.png''
       = Inr h1"
    by (simp add: writeResource_def writeBufferView_def cachedTarget_def addBuffer_def Let_def
          bothTargets_def example_defs)
  obtain h2 where e2:
    "writeResource exampleEnv (exampleHeap bothTargets plainOptions) 0 False True ''.png''
       = Inr h2"
    by (simp add: writeResource_def writeDataUri_def toStringBase64_def Let_def
          bothTargets_def example_defs)
  obtain h3 where e3:
    "writeResource exampleEnv
       (exampleHeap bothTargets (plainOptions\<lparr>separateResources := Some []\<rparr>))
       0 True False ''.png'' = Inr h3"
    by (simp add: writeResource_def writeFile_def cachedTarget_def getRelativePath_def
          getName_def freePath.simps taken_def definedSource_def Let_def
          bothTargets_def example_defs)
  from writeResource_one_target [OF e1] writeResource_one_target [OF e2]
    writeResource_one_target [OF e3] e1 e2 e3
  show ?thesis by simp
qed

text \<open>
  C9. With \<^verbatim>\<open>separateBuffers\<close> false and no \<^verbatim>\<open>bufferStorage\<close>, \<^verbatim>\<open>writeBuffer\<close> turns a buffer
  into a base64 data URI whatever \<^verbatim>\<open>dataUris\<close> is, and removes its \<^verbatim>\<open>bufferView\<close>. And
  under any options a buffer that \<^verbatim>\<open>writeBuffer\<close> has written has no \<^verbatim>\<open>bufferView\<close>, unless
  it went to the buffer storage, which leaves the buffer as it was.
\<close>

theorem writeBuffer_data_uri:
  assumes "\<not> separateBuffers (options h)" and "bufferStorage (options h) = None"
    and "source (object h) = Binary b"
  shows "writeBuffer env (h\<lparr>options := (options h)\<lparr>dataUris := d\<rparr>\<rparr>) i =
           Inr (h\<lparr>options := (options h)\<lparr>dataUris := d\<rparr>,
                  object := (object h)
                    \<lparr>bufferView := None,
                     uri := Some (JStr (''data:'' @ mimeString (mime_getType env ''.bin'') @
                                        '';base64,'' @ base64 b))\<rparr>\<rparr>) \<and>
         (\<forall>h0 h'. writeBuffer env h0 i = Inr h' \<longrightarrow>
            bufferView (object h') = None \<or> object h' = object h0)"
proof
  show "writeBuffer env (h\<lparr>options := (options h)\<lparr>dataUris := d\<rparr>\<rparr>) i =
           Inr (h\<lparr>options := (options h)\<lparr>dataUris := d\<rparr>,
                  object := (object h)
                    \<lparr>bufferView := None,
                     uri := Some (JStr (''data:'' @ mimeString (mime_getType env ''.bin'') @
                                        '';base64,'' @ base64 b))\<rparr>\<rparr>)"
    using assms
    by (simp add: writeBuffer_def writeResource_def writeDataUri_def toStringBase64_def Let_def)
  show "\<forall>h0 h'. writeBuffer env h0 i = Inr h' \<longrightarrow>
          bufferView (object h') = None \<or> object h' = object h0"
    by (auto simp: writeBuffer_def writeResource_def writeBufferStorage_def Let_def
        dest: writeDataUri_target writeFile_target split: option.splits if_splits src.splits)
qed

text \<open>A buffer of four bytes that came with a \<^verbatim>\<open>bufferView\<close>, written with \<^verbatim>\<open>dataUris\<close> false.\<close>

theorem writeBuffer_data_uri_witness:
  "\<not> separateBuffers (options (exampleHeap bothTargets plainOptions)) \<and>
   bufferStorage (options (exampleHeap bothTargets plainOptions)) = None \<and>
   source (object (exampleHeap bothTargets plainOptions)) = Binary pngBytes \<and>
   (\<exists>h'. writeBuffer exampleEnv (exampleHeap bothTargets plainOptions) 0 = Inr h' \<and>
      bufferView (object h') = None \<and>
      uri (object h') = Some (JStr ''data:application/octet-stream;base64,iVBORw==''))"
proof -
  have a: "\<not> separateBuffers (options (exampleHeap bothTargets plainOptions))"
    and b: "bufferStorage (options (exampleHeap bothTargets plainOptions)) = None"
    and c: "source (object (exampleHeap bothTargets plainOptions)) = Binary pngBytes"
    by (simp_all add: bothTargets_def example_defs)
  have same: "(exampleHeap bothTargets plainOptions)
      \<lparr>options := (options (exampleHeap bothTargets plainOptions))\<lparr>dataUris := False\<rparr>\<rparr>
      = exampleHeap bothTargets plainOptions"
    by (simp add: example_defs)
  have enc: "base64 pngBytes = ''iVBORw==''"
    by (simp add: base64_def base64Char_def pngBytes_def)
  have mime: "mimeString (mime_getType exampleEnv ''.bin'') = ''application/octet-stream''"
    by (simp add: mimeString_def exampleEnv_def exampleMime_def)
  from writeBuffer_data_uri [OF a b c, of exampleEnv False 0] a b c
  show ?thesis unfolding same enc mime by simp
qed

text \<open>
  C10. On the separate-file path, a resource with no explicit relative path and no cached
  target cannot be written when \<^verbatim>\<open>options.separateResources\<close> is undefined: the collision
  loop of \<^verbatim>\<open>getRelativePath\<close> reads it unguarded and \<^verbatim>\<open>writeFile\<close> ends with a TypeError,
  having only deleted the \<^verbatim>\<open>bufferView\<close>. With an explicit relative path the loop is not
  reached, the guarded sink write is skipped, and the write succeeds.
\<close>

theorem writeFile_needs_separateResources:
  assumes "separateResources (options h) = None" and "\<not> defined (cachedTarget h)"
  shows "(relativePath (object h) = None \<longrightarrow>
            writeFile h index extension =
              Inl (TypeError, h\<lparr>object := (object h)\<lparr>bufferView := None\<rparr>\<rparr>)) \<and>
         (\<forall>path. relativePath (object h) = Some path \<longrightarrow>
            (\<exists>h'. writeFile h index extension = Inr h' \<and>
                   uri (object h') = Some (JStr (replaceBackslashes path))))"
  using assms
  by (auto simp: defined_simps writeFile_def Let_def cachedTarget_def getRelativePath_def getName_def
      split: option.splits sum.splits if_splits)

text \<open>An unnamed image, without and with an explicit relative path, and no sink.\<close>

theorem writeFile_needs_separateResources_witness:
  "separateResources (options (exampleHeap (bare (Binary pngBytes)) plainOptions)) = None \<and>
   \<not> defined (cachedTarget (exampleHeap (bare (Binary pngBytes)) plainOptions)) \<and>
   relativePath (object (exampleHeap (bare (Binary pngBytes)) plainOptions)) = None \<and>
   (\<exists>h'. writeFile (exampleHeap (bare (Binary pngBytes)) plainOptions) 0 ''.png''
            = Inl (TypeError, h')) \<and>
   (\<exists>h'. writeFile
            (exampleHeap ((bare (Binary pngBytes))\<lparr>relativePath := Some ''tex/a.png''\<rparr>)
               plainOptions) 0 ''.png'' = Inr h' \<and>
          uri (object h') = Some (JStr ''tex/a.png''))"
proof -
  have a: "separateResources (options (exampleHeap obj plainOptions)) = None"
    and b: "\<not> defined (cachedTarget (exampleHeap obj plainOptions))" for obj
    by (simp_all add: cachedTarget_def example_defs split: option.splits)
  have c: "relativePath (object (exampleHeap (bare (Binary pngBytes)) plainOptions)) = None"
    by (simp add: example_defs)
  have d: "relativePath (object (exampleHeap
             ((bare (Binary pngBytes))\<lparr>relativePath := Some ''tex/a.png''\<rparr>) plainOptions))
           = Some ''tex/a.png''"
    by (simp add: example_defs)
  have e: "replaceBackslashes ''tex/a.png'' = ''tex/a.png''"
    by (simp add: replaceBackslashes_def)
  from writeFile_needs_separateResources [OF a b, of "bare (Binary pngBytes)" 0 "''.png''"]
    writeFile_needs_separateResources [OF a b,
      of "(bare (Binary pngBytes))\<lparr>relativePath := Some ''tex/a.png''\<rparr>" 0 "''.png''"]
    a b c d e
  show ?thesis by auto
qed

subsection \<open>The image chain on concrete inputs\<close>

lemmas chain_defs =
  imageChain_def andThen_def writeTemp_def transcode_def encodeBasisStage_def
  jpegStage_def readBack_def finishImage_def getImageExtension_def logCall_def putFile_def
  removeFile_def setSource_def tempFile_def truthy_def basisuCommand_def readFile_def

lemmas write_defs =
  writeResource_def writeBufferView_def writeFile_def writeDataUri_def cachedTarget_def
  addBuffer_def mimeValue_def addExtensionsRequired_def toStringBase64_def mimeString_def

subsection \<open>What the stages leave in the trace\<close>

lemma gm_logCall [simp]:
  "filter isGmWrite (trace (world (logCall c h))) =
     filter isGmWrite (trace (world h)) @ (if isGmWrite c then [c] else [])"
  by (simp add: logCall_def)

lemma world_simps [simp]:
  "trace (world (putFile p b h)) = trace (world h)"
  "trace (world (removeFile p h)) = trace (world h)"
  "trace (world (setSource s h)) = trace (world h)"
  "options (putFile p b h) = options h"
  "options (removeFile p h) = options h"
  "options (setSource s h) = options h"
  "options (logCall c h) = options h"
  by (simp_all add: putFile_def removeFile_def setSource_def logCall_def)

lemma isGmWrite_simps [simp]:
  "isGmWrite (GmWrite a q b) = True" "isGmWrite (Exec c) = False"
  "isGmWrite (FsWriteFile p) = False" "isGmWrite (FsReadFile p) = False"
  "isGmWrite (FsUnlinkSync p) = False" "isGmWrite (DWebpWrite p) = False"
  by (simp_all add: isGmWrite_def)

lemma writeTemp_no_gm:
  "writeTemp env uid h = (h1, r) \<Longrightarrow>
     options h1 = options h \<and>
     filter isGmWrite (trace (world h1)) = filter isGmWrite (trace (world h))"
  by (auto simp: world_simps gm_logCall isGmWrite_simps writeTemp_def Let_def split: sum.splits src.splits if_splits option.splits)

lemma encodeBasisStage_no_gm:
  "filter isGmWrite (trace (world (fst (encodeBasisStage env uid extension h)))) =
     filter isGmWrite (trace (world h))"
  by (simp add: world_simps gm_logCall isGmWrite_simps encodeBasisStage_def Let_def split: option.splits)

lemma readBack_no_gm:
  "filter isGmWrite (trace (world (fst (readBack env uid extension h)))) =
     filter isGmWrite (trace (world h))"
  by (simp add: world_simps gm_logCall isGmWrite_simps readBack_def Let_def split: option.splits)

lemma writeResource_world:
  "writeResource env h i separate d extension = Inr h' \<Longrightarrow> world h' = world h"
  "writeResource env h i separate d extension = Inl (e, h') \<Longrightarrow> world h' = world h"
  by (auto simp: writeResource_def writeFile_def writeDataUri_def writeBufferView_def Let_def
      split: option.splits sum.splits src.splits prod.splits if_splits)

lemma finishImage_world: "world (fst (finishImage env i h)) = world h"
  by (auto simp: finishImage_def Let_def dest: writeResource_world
      split: sum.splits prod.splits)

text \<open>
  C3. The claim: an image whose sniffed format is already the container, extension
  \<^verbatim>\<open>.ktx2\<close>, is not given to the basis encoder even when \<^verbatim>\<open>encodeBasis\<close> is requested. The
  code compares the extension with \<^verbatim>\<open>ktx2\<close>, without the dot (line 130), so the guard never
  holds. On a KTX2 image with \<^verbatim>\<open>encodeBasis\<close> the encoder is run on \<^verbatim>\<open>image-<uid>.ktx2\<close>; the
  branch then unlinks that file, which is also its output, and the read-back of the third
  promise fails and throws from \<^verbatim>\<open>fs.unlinkSync\<close>.
\<close>

theorem ktx2_image_is_encoded_again:
  "snd (imageChain exampleEnv 0
          (exampleHeap (bare (Binary ktx2Bytes)) (plainOptions\<lparr>encodeBasis := True\<rparr>)))
     = Uncaught (ENOENT ''/tmp/image-uid0.ktx2'') \<and>
   trace (world (fst (imageChain exampleEnv 0
          (exampleHeap (bare (Binary ktx2Bytes)) (plainOptions\<lparr>encodeBasis := True\<rparr>)))))
     = [FsWriteFile ''/tmp/image-uid0.ktx2'',
        Exec ''basisu -ktx2 -mipmap   /tmp/image-uid0.ktx2 -output_path /tmp'',
        FsReadFile ''/tmp/image-uid0.ktx2'',
        FsUnlinkSync ''/tmp/image-uid0.ktx2'',
        FsReadFile ''/tmp/image-uid0.ktx2'',
        FsUnlinkSync ''/tmp/image-uid0.ktx2'']"
  by (simp add: chain_defs write_defs example_defs exampleSniff_def numberToString_0 Let_def)

text \<open>
  C4. The claim: a stage that completes has deleted the temp files it created; on the
  JPEG path both \<^verbatim>\<open>image-<uid><extension>\<close> and \<^verbatim>\<open>image-<uid>.jpg\<close> are gone when the image
  reaches the externalization. The JPEG branch never unlinks the file it read, as the
  basis branch does (line 143): for a PNG image with \<^verbatim>\<open>jpegCompressionRatio\<close> the chain
  resolves and \<^verbatim>\<open>image-<uid>.png\<close> is still there.
\<close>

theorem jpeg_path_leaves_original:
  "snd (imageChain exampleEnv 0
          (exampleHeap (bare (Binary pngBytes))
             (plainOptions\<lparr>jpegCompressionRatio := Some 80\<rparr>)))
     = Resolved () \<and>
   files (world (fst (imageChain exampleEnv 0
          (exampleHeap (bare (Binary pngBytes))
             (plainOptions\<lparr>jpegCompressionRatio := Some 80\<rparr>)))))
     = [''/tmp/image-uid0.png'' \<mapsto> pngBytes] \<and>
   bufferView (object (fst (imageChain exampleEnv 0
          (exampleHeap (bare (Binary pngBytes))
             (plainOptions\<lparr>jpegCompressionRatio := Some 80\<rparr>)))))
     = Some (JNum 0)"
  by (simp add: chain_defs write_defs example_defs exampleSniff_def numberToString_0 Let_def)

text \<open>
  C5. For an image whose basis branch is taken (\<^verbatim>\<open>encodeBasis\<close> is set and the extension
  of the first promise is not \<^verbatim>\<open>ktx2\<close>), the second promise is the basis branch whatever
  \<^verbatim>\<open>jpegCompressionRatio\<close> is, and the whole chain of the image adds no call of the JPEG
  re-encoder to the trace.
\<close>

theorem basis_encode_drops_jpeg:
  assumes "writeTemp env (uuidv4 env i) h = (h1, Resolved extension)"
    and "encodeBasis (options h)" and "extension \<noteq> ''ktx2''"
  shows "transcode env (uuidv4 env i) extension h1 =
           encodeBasisStage env (uuidv4 env i) extension h1 \<and>
         filter isGmWrite (trace (world (fst (imageChain env i h)))) =
           filter isGmWrite (trace (world h))"
proof -
  from writeTemp_no_gm [OF assms(1)] have o: "options h1 = options h"
    and t: "filter isGmWrite (trace (world h1)) = filter isGmWrite (trace (world h))"
    by simp_all
  have tr: "transcode env (uuidv4 env i) extension h1 =
      encodeBasisStage env (uuidv4 env i) extension h1"
    using assms(2,3) o by (simp add: transcode_def)
  obtain h2 r2 where s2: "encodeBasisStage env (uuidv4 env i) extension h1 = (h2, r2)"
    by (cases "encodeBasisStage env (uuidv4 env i) extension h1")
  from encodeBasisStage_no_gm [of env "uuidv4 env i" extension h1] s2 t
  have t2: "filter isGmWrite (trace (world h2)) = filter isGmWrite (trace (world h))"
    by simp
  have "filter isGmWrite (trace (world (fst (imageChain env i h)))) =
     filter isGmWrite (trace (world h))"
  proof (cases r2)
    case (Resolved e2)
    then show ?thesis
      using assms(1) tr s2 t2 readBack_no_gm [of env "uuidv4 env i" e2 h2]
        finishImage_world [of env i "fst (readBack env (uuidv4 env i) e2 h2)"]
      by (auto simp: imageChain_def andThen_def Let_def split: outcome.splits)
  next
    case (Rejected e)
    then show ?thesis
      using assms(1) tr s2 t2 by (simp add: imageChain_def andThen_def Let_def)
  next
    case (Uncaught e)
    then show ?thesis
      using assms(1) tr s2 t2 by (simp add: imageChain_def andThen_def Let_def)
  qed
  with tr show ?thesis by simp
qed

text \<open>A PNG image with both \<^verbatim>\<open>encodeBasis\<close> and \<^verbatim>\<open>jpegCompressionRatio\<close> set.\<close>

theorem basis_encode_drops_jpeg_witness:
  "(\<exists>h1. writeTemp exampleEnv (uuidv4 exampleEnv 0)
            (exampleHeap (bare (Binary pngBytes))
               (plainOptions\<lparr>encodeBasis := True, jpegCompressionRatio := Some 80\<rparr>))
          = (h1, Resolved ''.png'')) \<and>
   encodeBasis (options (exampleHeap (bare (Binary pngBytes))
               (plainOptions\<lparr>encodeBasis := True, jpegCompressionRatio := Some 80\<rparr>))) \<and>
   truthy (jpegCompressionRatio (options (exampleHeap (bare (Binary pngBytes))
               (plainOptions\<lparr>encodeBasis := True, jpegCompressionRatio := Some 80\<rparr>)))) \<and>
   ''.png'' \<noteq> ''ktx2'' \<and>
   filter isGmWrite (trace (world (fst (imageChain exampleEnv 0
            (exampleHeap (bare (Binary pngBytes))
               (plainOptions\<lparr>encodeBasis := True, jpegCompressionRatio := Some 80\<rparr>))))))
     = []"
proof -
  obtain h1 where w: "writeTemp exampleEnv (uuidv4 exampleEnv 0)
            (exampleHeap (bare (Binary pngBytes))
               (plainOptions\<lparr>encodeBasis := True, jpegCompressionRatio := Some 80\<rparr>))
          = (h1, Resolved ''.png'')"
    by (simp add: writeTemp_def getImageExtension_def exampleSniff_def Let_def example_defs)
  have e: "encodeBasis (options (exampleHeap (bare (Binary pngBytes))
               (plainOptions\<lparr>encodeBasis := True, jpegCompressionRatio := Some 80\<rparr>)))"
    and j: "truthy (jpegCompressionRatio (options (exampleHeap (bare (Binary pngBytes))
               (plainOptions\<lparr>encodeBasis := True, jpegCompressionRatio := Some 80\<rparr>))))"
    and t: "trace (world (exampleHeap (bare (Binary pngBytes))
               (plainOptions\<lparr>encodeBasis := True, jpegCompressionRatio := Some 80\<rparr>))) = []"
    by (simp_all add: truthy_def example_defs)
  have n: "''.png'' \<noteq> ''ktx2''" by simp
  from basis_encode_drops_jpeg [OF w e n] w e j n t show ?thesis by auto
qed

subsection \<open>The collision loop\<close>

lemma freePath_spec:
  "\<not> taken sr (freePath sr nm extension path number) \<and>
   (\<not> taken sr path \<longrightarrow> freePath sr nm extension path number = path) \<and>
   (taken sr path \<longrightarrow>
      (\<exists>k\<ge>number. freePath sr nm extension path number = suffixed nm extension k \<and>
         (\<forall>j. number \<le> j \<and> j < k \<longrightarrow> taken sr (suffixed nm extension j))))"
proof (induction sr nm extension path number rule: freePath.induct)
  case (1 sr nm extension path number)
  show ?case
  proof (cases "taken sr path")
    case False
    then show ?thesis by (simp add: freePath.simps [of sr nm extension path number])
  next
    case True
    note IH = "1.IH" [OF True]
    have eq: "freePath sr nm extension path number =
        freePath sr nm extension (suffixed nm extension number) (Suc number)"
      using True by (simp add: freePath.simps [of sr nm extension path number])
    show ?thesis
    proof (cases "taken sr (suffixed nm extension number)")
      case False
      with IH eq True show ?thesis by (intro conjI impI) (auto intro!: exI [of _ number])
    next
      case t: True
      with IH obtain k where k: "Suc number \<le> k"
        "freePath sr nm extension (suffixed nm extension number) (Suc number) = suffixed nm extension k"
        "\<forall>j. Suc number \<le> j \<and> j < k \<longrightarrow> taken sr (suffixed nm extension j)"
        by blast
      have "\<forall>j. number \<le> j \<and> j < k \<longrightarrow> taken sr (suffixed nm extension j)"
      proof (intro allI impI)
        fix j assume "number \<le> j \<and> j < k"
        then show "taken sr (suffixed nm extension j)"
          using t k(3) by (cases "j = number") auto
      qed
      with k IH eq True show ?thesis by (intro conjI impI) (auto intro!: exI [of _ k])
    qed
  qed
qed

lemma taken_iff_key:
  "Undefined \<notin> snd ` set sr \<Longrightarrow> taken sr p = (p \<in> fst ` set sr)"
proof
  assume "taken sr p"
  then show "p \<in> fst ` set sr" by (rule taken_key)
next
  assume u: "Undefined \<notin> snd ` set sr" and "p \<in> fst ` set sr"
  then obtain s where "map_of sr p = Some s"
    by (metis (no_types) domD dom_map_of_conv_image_fst)
  moreover from this have "(p, s) \<in> set sr" by (rule map_of_SomeD)
  with u have "s \<noteq> Undefined" by force
  ultimately show "taken sr p"
    by (cases s) (simp_all add: taken_def definedSource_def)
qed

lemma numberToString_Suc_0: "numberToString (Suc 0) = ''1''"
  using numberToString_1 by simp

lemma taken_simps:
  "taken [] p = False"
  "taken ((q, Binary b) # sr) p = (p = q \<or> taken sr p)"
  by (auto simp: taken_def definedSource_def)

text \<open>
  C7. A path is taken when \<^verbatim>\<open>defined(options.separateResources[relativePath])\<close> holds: when
  it is a key of the sink with a defined value (\<open>taken_iff_key\<close>: in a sink that holds only
  defined sources, when it is a key). For a resource with no explicit relative path,
  \<^verbatim>\<open>getRelativePath\<close> returns a path that is not taken: \<^verbatim>\<open>name + extension\<close> when that is
  free, and otherwise \<^verbatim>\<open>name_k.extension\<close> for the first \<open>k\<close> from 1 on that is free, every
  smaller suffix being taken. An unnamed buffer of a document without a name has the name
  \<^verbatim>\<open>buffer<index>\<close>.
\<close>

theorem getRelativePath_collision:
  assumes "relativePath obj = None" and "separateResources opts = Some sr"
    and "getName g obj index extension opts = Inr nm"
  shows "\<exists>path. getRelativePath g obj index extension opts = Inr path \<and> \<not> taken sr path \<and>
           (\<not> taken sr (nm @ extension) \<longrightarrow> path = nm @ extension) \<and>
           (taken sr (nm @ extension) \<longrightarrow>
              (\<exists>k\<ge>1. path = nm @ ''_'' @ numberToString k @ extension \<and>
                 (\<forall>j. 1 \<le> j \<and> j < k \<longrightarrow>
                    taken sr (nm @ ''_'' @ numberToString j @ extension)))) \<and>
           (name obj = None \<and> gltfName opts = None \<and> extension = ''.bin'' \<longrightarrow>
              nm = ''buffer'' @ numberToString index)"
proof -
  have e: "getRelativePath g obj index extension opts =
      Inr (freePath sr nm extension (nm @ extension) 1)"
    using assms by (simp add: getRelativePath_def)
  have n: "name obj = None \<and> gltfName opts = None \<and> extension = ''.bin'' \<longrightarrow>
              nm = ''buffer'' @ numberToString index"
    using assms(3) by (auto simp: getName_def)
  from freePath_spec [of sr nm extension "nm @ extension" 1] e n
  show ?thesis by (simp add: suffixed_def)
qed


text \<open>
  Buffers 0 and 1 resolve to \<^verbatim>\<open>buffer0.bin\<close> and \<^verbatim>\<open>buffer1.bin\<close>, the second one with the first
  already in the sink; an image named \<^verbatim>\<open>tex\<close> resolves to \<^verbatim>\<open>tex_1.png\<close> when \<^verbatim>\<open>tex.png\<close> is
  taken; and two images named \<^verbatim>\<open>tex\<close> written one after the other get \<^verbatim>\<open>tex.png\<close> and
  \<^verbatim>\<open>tex_1.png\<close>.
\<close>

theorem getRelativePath_collision_witness:
  "getRelativePath emptyGltf (bare (Binary pngBytes)) 0 ''.bin'' (sinkOptions []) = Inr ''buffer0.bin'' \<and>
   getRelativePath emptyGltf (bare (Binary pngBytes)) 1 ''.bin''
     (sinkOptions [(''buffer0.bin'', Binary pngBytes)]) = Inr ''buffer1.bin'' \<and>
   getRelativePath emptyGltf namedTex 1 ''.png''
     (sinkOptions [(''tex.png'', Binary pngBytes)]) = Inr ''tex_1.png'' \<and>
   (\<exists>h1 h2. writeFile (exampleHeap namedTex (sinkOptions [])) 0 ''.png'' = Inr h1 \<and>
      writeFile (h1\<lparr>object := namedTex\<rparr>) 1 ''.png'' = Inr h2 \<and>
      uri (object h1) = Some (JStr ''tex.png'') \<and> uri (object h2) = Some (JStr ''tex_1.png'') \<and>
      separateResources (options h2) =
        Some [(''tex.png'', Binary pngBytes), (''tex_1.png'', Binary pngBytes)])"
proof -
  have r: "relativePath (bare s) = None" "relativePath namedTex = None" for s
    by (simp_all add: bare_def namedTex_def)
  have s: "separateResources (sinkOptions sr) = Some sr" for sr
    by (simp add: sinkOptions_def)
  have n0: "getName emptyGltf (bare (Binary pngBytes)) 0 ''.bin'' (sinkOptions sr) = Inr ''buffer0''"
    and n1: "getName emptyGltf (bare (Binary pngBytes)) 1 ''.bin'' (sinkOptions sr) = Inr ''buffer1''"
    and n2: "getName emptyGltf namedTex 1 ''.png'' (sinkOptions sr) = Inr ''tex''" for sr
    by (simp_all add: getName_def bare_def namedTex_def sinkOptions_def plainOptions_def
          numberToString_0 numberToString_1 numberToString_Suc_0)
  have a: "getRelativePath emptyGltf (bare (Binary pngBytes)) 0 ''.bin'' (sinkOptions []) = Inr ''buffer0.bin''"
    using getRelativePath_collision [OF r(1) s n0 [of "[]"]]
    by (auto simp: taken_simps)
  have b: "getRelativePath emptyGltf (bare (Binary pngBytes)) 1 ''.bin''
     (sinkOptions [(''buffer0.bin'', Binary pngBytes)]) = Inr ''buffer1.bin''"
    using getRelativePath_collision [OF r(1) s n1 [of "[(''buffer0.bin'', Binary pngBytes)]"]]
    by (auto simp: taken_simps)
  from getRelativePath_collision [OF r(2) s n2 [of "[(''tex.png'', Binary pngBytes)]"]]
  obtain path k where p: "getRelativePath emptyGltf namedTex 1 ''.png''
     (sinkOptions [(''tex.png'', Binary pngBytes)]) = Inr path"
    and k: "1 \<le> k" "path = ''tex'' @ ''_'' @ numberToString k @ ''.png''"
      "\<forall>j. 1 \<le> j \<and> j < k \<longrightarrow> taken [(''tex.png'', Binary pngBytes)] (''tex'' @ ''_'' @ numberToString j @ ''.png'')"
    by (auto simp: taken_simps)
  have "k = 1"
  proof (rule ccontr)
    assume "k \<noteq> 1"
    with k(1) have "1 \<le> (1::nat) \<and> 1 < k" by simp
    with k(3) have "taken [(''tex.png'', Binary pngBytes)] (''tex'' @ ''_'' @ numberToString 1 @ ''.png'')"
      by blast
    then show False by (simp add: taken_simps numberToString_1 numberToString_Suc_0)
  qed
  with p k(2) have c: "getRelativePath emptyGltf namedTex 1 ''.png''
     (sinkOptions [(''tex.png'', Binary pngBytes)]) = Inr ''tex_1.png''"
    by (simp add: numberToString_1 numberToString_Suc_0)
  have d: "\<exists>h1 h2. writeFile (exampleHeap namedTex (sinkOptions [])) 0 ''.png'' = Inr h1 \<and>
      writeFile (h1\<lparr>object := namedTex\<rparr>) 1 ''.png'' = Inr h2 \<and>
      uri (object h1) = Some (JStr ''tex.png'') \<and> uri (object h2) = Some (JStr ''tex_1.png'') \<and>
      separateResources (options h2) =
        Some [(''tex.png'', Binary pngBytes), (''tex_1.png'', Binary pngBytes)]"
    by (simp add: writeFile_def cachedTarget_def getRelativePath_def getName_def
          freePath.simps taken_simps suffixed_def numberToString_1 numberToString_Suc_0 Let_def
          namedTex_def sinkOptions_def example_defs)
  from a b c d show ?thesis by simp
qed

subsection \<open>What a call leaves untouched\<close>

lemma writeFile_frame:
  assumes "writeFile h n e = Inr h' \<or> writeFile h n e = Inl (er, h')"
  shows "gltf h' = gltf h \<and> source (object h') = source (object h) \<and>
    encodeBasis (options h') = encodeBasis (options h) \<and> world h' = world h"
  using assms
  by (auto simp: writeFile_def Let_def split: option.splits sum.splits if_splits)

lemma writeDataUri_frame:
  assumes "writeDataUri env h e = Inr h' \<or> writeDataUri env h e = Inl (er, h')"
  shows "gltf h' = gltf h \<and> source (object h') = source (object h) \<and>
    options h' = options h \<and> world h' = world h"
  using assms
  by (auto simp: writeDataUri_def Let_def split: option.splits)

lemma writeBufferView_frame:
  assumes "writeBufferView h = Inr h' \<or> writeBufferView h = Inl (er, h')"
  shows "images (gltf h') = images (gltf h) \<and> shaders (gltf h') = shaders (gltf h) \<and>
    textures (gltf h') = textures (gltf h) \<and> programs (gltf h') = programs (gltf h) \<and>
    extensionsRequired (gltf h') = extensionsRequired (gltf h) \<and>
    source (object h') = source (object h) \<and>
    options h' = options h \<and> world h' = world h"
  using assms
  by (auto simp: writeBufferView_def addBuffer_def Let_def
      split: option.splits src.splits if_splits)

lemma writeResource_frame:
  assumes "writeResource env h n s d e = Inr h' \<or> writeResource env h n s d e = Inl (er, h')"
  shows "images (gltf h') = images (gltf h)" "shaders (gltf h') = shaders (gltf h)"
    "textures (gltf h') = textures (gltf h)" "programs (gltf h') = programs (gltf h)"
    "extensionsRequired (gltf h') = extensionsRequired (gltf h)"
    "source (object h') = source (object h)"
    "encodeBasis (options h') = encodeBasis (options h)"
    "world h' = world h"
  using assms writeFile_frame [of h n e h' er] writeDataUri_frame [of env h e h' er]
    writeBufferView_frame [of h h' er]
  by (auto simp: writeResource_def split: if_splits)

lemma writeResource_externalized:
  "writeResource env h n s d e = Inr h' \<Longrightarrow> externalized (object h')"
  by (auto simp: writeResource_def externalized_def
      dest: writeDataUri_target writeFile_target writeBufferView_target split: if_splits)

lemma stage_gltf [simp]:
  "gltf (putFile p b h) = gltf h" "gltf (removeFile p h) = gltf h"
  "gltf (setSource s h) = gltf h" "gltf (logCall c h) = gltf h"
  by (simp_all add: putFile_def removeFile_def setSource_def logCall_def)

lemma writeTemp_gltf: "gltf (fst (writeTemp env uid h)) = gltf h"
  by (simp add: stage_gltf writeTemp_def Let_def split: sum.splits src.splits option.splits)

lemma encodeBasisStage_gltf: "gltf (fst (encodeBasisStage env uid x h)) = gltf h"
  by (simp add: stage_gltf encodeBasisStage_def Let_def split: option.splits)

lemma jpegStage_gltf: "gltf (fst (jpegStage env uid x q h)) = gltf h"
  by (simp add: stage_gltf jpegStage_def Let_def split: sum.splits option.splits)

lemma transcode_gltf: "gltf (fst (transcode env uid x h)) = gltf h"
  by (simp add: transcode_def encodeBasisStage_gltf jpegStage_gltf)

lemma readBack_gltf: "gltf (fst (readBack env uid x h)) = gltf h"
  by (simp add: stage_gltf readBack_def Let_def split: option.splits)

lemma finishImage_images: "images (gltf (fst (finishImage env i h))) = images (gltf h)"
  by (auto simp: finishImage_def addExtensionsRequired_def Let_def
      dest: writeResource_frame(1) [OF disjI1] writeResource_frame(1) [OF disjI2]
      split: sum.splits prod.splits)

lemma andThen_images:
  assumes "\<And>v h. images (gltf (fst (f v h))) = images (gltf h)"
  shows "images (gltf (fst (andThen p f))) = images (gltf (fst p))"
  using assms by (simp add: andThen_def split: outcome.splits)

lemma imageChain_images: "images (gltf (fst (imageChain env i h))) = images (gltf h)"
  by (simp add: imageChain_def Let_def andThen_images finishImage_images readBack_gltf
      transcode_gltf writeTemp_gltf)

lemma writeImage_images:
  "images (document (fst (writeImage env i st))) =
     (images (document st))[i := object (fst (imageChain env i (enter st (images (document st) ! i))))]"
  by (simp add: writeImage_def Let_def leaveImage_def imageChain_images enter_def)

lemma finishImage_externalized:
  "finishImage env i h = (h', Resolved u) \<Longrightarrow> externalized (object h')"
  by (auto simp: finishImage_def Let_def externalized_def
      dest!: writeResource_externalized split: sum.splits prod.splits if_splits)

lemma andThen_Resolved:
  "andThen p f = (h', Resolved u) \<Longrightarrow> \<exists>v. snd p = Resolved v \<and> f v (fst p) = (h', Resolved u)"
  by (auto simp: andThen_def split: outcome.splits)

lemma imageChain_externalized:
  "imageChain env i h = (h', Resolved u) \<Longrightarrow> externalized (object h')"
  by (auto simp: imageChain_def Let_def dest!: andThen_Resolved dest: finishImage_externalized)

lemma writeImage_externalized:
  assumes "writeImage env i st = (st', Resolved u)" and "i < length (images (document st))"
  shows "externalized (images (document st') ! i)"
proof -
  obtain h' where c: "imageChain env i (enter st (images (document st) ! i)) = (h', Resolved u)"
    and s: "st' = leaveImage i h'"
    using assms(1) by (cases "imageChain env i (enter st (images (document st) ! i))")
      (auto simp: writeImage_def Let_def)
  from imageChain_images [of env i "enter st (images (document st) ! i)"] c
  have "images (gltf h') = images (document st)" by (simp add: enter_def)
  with assms(2) s imageChain_externalized [OF c] show ?thesis
    by (simp add: leaveImage_def)
qed

lemma imageAsync_images:
  "length (images (document (fst (imageAsync env xs st)))) = length (images (document st)) \<and>
   (\<forall>k. k \<notin> set xs \<longrightarrow>
      images (document (fst (imageAsync env xs st))) ! k = images (document st) ! k)"
proof (induction xs arbitrary: st)
  case Nil
  then show ?case by simp
next
  case (Cons x xs)
  obtain sx r where w: "writeImage env x st = (sx, r)" by (cases "writeImage env x st")
  from writeImage_images [of env x st] w
  have im: "length (images (document sx)) = length (images (document st))"
    "\<And>k. k \<noteq> x \<Longrightarrow> images (document sx) ! k = images (document st) ! k"
    by simp_all
  show ?case
  proof (cases r)
    case (Resolved u)
    with w Cons.IH [of sx] im show ?thesis by simp
  next
    case (Rejected e)
    with w im show ?thesis by simp
  next
    case (Uncaught e)
    with w im show ?thesis by simp
  qed
qed

lemma imageAsync_externalized:
  "imageAsync env xs st = (st', Resolved u) \<Longrightarrow> distinct xs \<Longrightarrow>
   \<forall>k\<in>set xs. k < length (images (document st)) \<Longrightarrow>
     \<forall>k\<in>set xs. externalized (images (document st') ! k)"
proof (induction xs arbitrary: st)
  case Nil
  then show ?case by simp
next
  case (Cons x xs)
  from Cons.prems(1) obtain sx ux where w: "writeImage env x st = (sx, Resolved ux)"
    and r: "imageAsync env xs sx = (st', Resolved u)"
    by (auto split: prod.splits outcome.splits)
  from writeImage_images [of env x st] w
  have len: "length (images (document sx)) = length (images (document st))" by simp
  from Cons.prems(3) have x: "x < length (images (document st))" by simp
  have ex: "externalized (images (document sx) ! x)"
    by (rule writeImage_externalized [OF w x])
  from Cons.prems(2) have "x \<notin> set xs" by simp
  with imageAsync_images [of env xs sx] r ex
  have a: "externalized (images (document st') ! x)" by simp
  from Cons.prems have "distinct xs" "\<forall>k\<in>set xs. k < length (images (document sx))"
    using len by simp_all
  from Cons.IH [OF r this] a show ?case by simp
qed

lemma imageAsync_append:
  "imageAsync env (xs @ ys) st =
     (case imageAsync env xs st of
        (st', Resolved u) \<Rightarrow> imageAsync env ys st'
      | (st', Rejected e) \<Rightarrow> (st', Rejected e)
      | (st', Uncaught e) \<Rightarrow> (st', Uncaught e))"
  by (induction xs arbitrary: st) (auto split: prod.splits outcome.splits)

lemma transcodeFailure_chain:
  "transcodeFailure env i h = Some e \<Longrightarrow> snd (imageChain env i h) = Rejected e"
  by (auto simp: transcodeFailure_def imageChain_def andThen_def Let_def
      split: prod.splits outcome.splits)

text \<open>
  Let the chains of the images \<open>pre\<close> have completed, all resolved, and let one of the three
  promises of the chain of image \<open>i\<close> reject with the error \<open>e\<close>. Then \<^verbatim>\<open>writeResources\<close>
  rejects with \<open>e\<close> itself, whatever images were still to complete. There is no returned
  document: the shader, buffer and texture passes are not run. The state at the rejection
  is the state the failing chain left, with nothing undone: every image of \<open>pre\<close> is
  externalized in it.
\<close>

lemma rejection_aborts_invocation:
  assumes "distinct (pre @ [i])" and "\<forall>k\<in>set pre. k < length (images g)"
    and "imageAsync env pre \<lparr>document = g, written = Map.empty, settings = opts, outside = w\<rparr>
           = (st1, Resolved ())"
    and "transcodeFailure env i (enter st1 (images (document st1) ! i)) = Some e"
  shows "writeResources env (pre @ i # rest) g opts w = (fst (writeImage env i st1), Rejected e) \<and>
         (\<forall>k\<in>set pre. externalized (images (document (fst (writeImage env i st1))) ! k))"
proof -
  let ?st0 = "\<lparr>document = g, written = Map.empty, settings = opts, outside = w\<rparr>"
  have "snd (writeImage env i st1) = Rejected e"
    using transcodeFailure_chain [OF assms(4)] by (simp add: writeImage_def Let_def)
  then have "imageAsync env (i # rest) st1 = (fst (writeImage env i st1), Rejected e)"
    by (cases "writeImage env i st1") simp
  with assms(3) have "imageAsync env (pre @ i # rest) ?st0 = (fst (writeImage env i st1), Rejected e)"
    by (simp add: imageAsync_append)
  then have a: "writeResources env (pre @ i # rest) g opts w = (fst (writeImage env i st1), Rejected e)"
    by (simp add: writeResources_def)
  from assms(1) have d: "distinct pre" and ni: "i \<notin> set pre" by simp_all
  from imageAsync_externalized [OF assms(3) d] assms(2)
  have e1: "\<forall>k\<in>set pre. externalized (images (document st1) ! k)" by simp
  have "\<forall>k\<in>set pre. externalized (images (document (fst (writeImage env i st1))) ! k)"
  proof
    fix k assume k: "k \<in> set pre"
    with ni have "k \<noteq> i" by auto
    then have "images (document (fst (writeImage env i st1))) ! k = images (document st1) ! k"
      by (simp add: writeImage_images)
    with e1 k show "externalized (images (document (fst (writeImage env i st1))) ! k)" by simp
  qed
  with a show ?thesis by simp
qed


lemmas pass_defs = writeImage_def enter_def leaveImage_def leaveShader_def leaveBuffer_def
  writeShader_def writeBuffer_def writeBufferStorage_def basisTexture_def

text \<open>
  A PNG image and a WebP image, \<^verbatim>\<open>decodeWebP\<close> set, and a decoder that fails: the PNG image
  completes first and is written to bufferView 0, the decode of the WebP image fails, and
  \<^verbatim>\<open>writeResources\<close> rejects with the error of the decoder; the PNG image keeps its
  \<^verbatim>\<open>bufferView\<close>.
\<close>

lemma decoder_failure_aborts_invocation:
  "distinct ([0] @ [1::nat]) \<and> 0 < length (images twoImages) \<and>
   snd (imageAsync failingDecoderEnv [0]
          \<lparr>document = twoImages, written = Map.empty,
             settings = plainOptions\<lparr>decodeWebP := True\<rparr>, outside = emptyWorld\<rparr>)
     = Resolved () \<and>
   snd (writeResources failingDecoderEnv ([0] @ 1 # []) twoImages
          (plainOptions\<lparr>decodeWebP := True\<rparr>) emptyWorld)
     = Rejected (ProcessError ''dwebp'') \<and>
   externalized (images (document (fst (writeResources failingDecoderEnv ([0] @ 1 # []) twoImages
          (plainOptions\<lparr>decodeWebP := True\<rparr>) emptyWorld))) ! 0) \<and>
   bufferView (images (document (fst (writeResources failingDecoderEnv ([0] @ 1 # []) twoImages
          (plainOptions\<lparr>decodeWebP := True\<rparr>) emptyWorld))) ! 0) = Some (JNum 0)"
proof -
  let ?st0 = "\<lparr>document = twoImages, written = Map.empty,
             settings = plainOptions\<lparr>decodeWebP := True\<rparr>, outside = emptyWorld\<rparr>"
  let ?st1 = "fst (imageAsync failingDecoderEnv [0] ?st0)"
  have d: "distinct ([0] @ [1::nat])" by simp
  have v: "\<forall>k\<in>set [0]. k < length (images twoImages)"
    by (simp add: twoImages_def emptyGltf_def)
  have ev: "imageAsync failingDecoderEnv [0] ?st0 =
      (\<lparr>document = twoImages
          \<lparr>buffers := [newBuffer pngBytes],
           bufferViews := [\<lparr>buffer = 0, byteOffset = 0, byteLength = 4\<rparr>],
           images := [(bare (Binary pngBytes))
                        \<lparr>bufferView := Some (JNum 0), mimeType := Some (JStr ''image/png'')\<rparr>,
                      bare (Binary webpBytes)]\<rparr>,
         written = Map.empty, settings = plainOptions\<lparr>decodeWebP := True\<rparr>,
         outside = \<lparr>files = Map.empty,
           trace = [FsWriteFile ''/tmp/image-uid0.png'', FsReadFile ''/tmp/image-uid0.png'',
                    FsUnlinkSync ''/tmp/image-uid0.png'']\<rparr>\<rparr>, Resolved ())"
    by (simp add: pass_defs chain_defs write_defs example_defs exampleSniff_def
          failingDecoderEnv_def twoImages_def webpBytes_def numberToString_0 Let_def)
  then have r: "imageAsync failingDecoderEnv [0] ?st0 = (?st1, Resolved ())" by simp
  have f: "transcodeFailure failingDecoderEnv 1 (enter ?st1 (images (document ?st1) ! 1))
      = Some (ProcessError ''dwebp'')"
    unfolding ev
    by (simp add: transcodeFailure_def enter_def chain_defs example_defs exampleSniff_def
          failingDecoderEnv_def twoImages_def webpBytes_def Let_def)
  have b: "bufferView (images (document (fst (writeImage failingDecoderEnv 1 ?st1))) ! 0)
      = Some (JNum 0)"
    unfolding ev
    by (simp add: writeImage_images twoImages_def example_defs)
  have l: "0 < length (images twoImages)" by (simp add: twoImages_def emptyGltf_def)
  have s: "snd (imageAsync failingDecoderEnv [0] ?st0) = Resolved ()"
    by (subst r) (rule snd_conv)
  note t = rejection_aborts_invocation [OF d v r f, of "[]"]
  from t have w: "writeResources failingDecoderEnv ([0] @ 1 # []) twoImages
          (plainOptions\<lparr>decodeWebP := True\<rparr>) emptyWorld =
        (fst (writeImage failingDecoderEnv 1 ?st1), Rejected (ProcessError ''dwebp''))"
    by (rule conjunct1)
  from t have "\<forall>k\<in>set [0]. externalized
      (images (document (fst (writeImage failingDecoderEnv 1 ?st1))) ! k)"
    by (rule conjunct2)
  then have x: "externalized (images (document (fst (writeImage failingDecoderEnv 1 ?st1))) ! 0)"
    by (rule bspec) simp
  show ?thesis
    unfolding w fst_conv snd_conv
    by (intro conjI d l s refl x b)
qed

subsection \<open>A chain that resolves\<close>

lemma stage_options [simp]:
  "object (putFile p b h) = object h" "object (removeFile p h) = object h"
  "object (logCall c h) = object h" "source (object (setSource s h)) = s"
  "files (world (logCall c h)) = files (world h)"
  "files (world (setSource s h)) = files (world h)"
  "files (world (putFile p b h)) = (files (world h))(p \<mapsto> b)"
  "files (world (removeFile p h)) = (files (world h))(p := None)"
  by (simp_all add: putFile_def removeFile_def setSource_def logCall_def)















subsection \<open>A transcode that fails\<close>

text \<open>
  The errors of the codecs and of the file system reject the chain: an error of the WebP
  decoder, of the write of the temp file, of the basis encoder, of the JPEG re-encoder, and
  of the read-back of a file that exists.
\<close>

lemma decoder_error_rejects:
  assumes "source (object h) = Binary b" and "sniff env b = Inr ''.webp''"
    and "decodeWebP (options h)" and "dwebp env b = Inl e"
  shows "transcodeFailure env i h = Some e"
  using assms by (simp add: transcodeFailure_def writeTemp_def getImageExtension_def Let_def)

lemma temp_write_error_rejects:
  assumes "source (object h) = Binary b" and "sniff env b = Inr x"
    and "\<not> (x = ''.webp'' \<and> decodeWebP (options h))"
    and "writeFileError env (tempFile env (uuidv4 env i) x) = Some e"
  shows "transcodeFailure env i h = Some e"
  using assms by (auto simp: transcodeFailure_def writeTemp_def getImageExtension_def Let_def)

lemma encoder_error_rejects:
  assumes "writeTemp env (uuidv4 env i) h = (h1, Resolved x)"
    and "encodeBasis (options h1)" and "x \<noteq> ''ktx2''"
    and "files (world h1) (tempFile env (uuidv4 env i) x) = Some input"
    and "fst (basisu env (basisuCommand env (options h1) (uuidv4 env i) x) input) = Some e"
  shows "transcodeFailure env i h = Some e"
proof -
  from assms(2-5) have "snd (encodeBasisStage env (uuidv4 env i) x h1) = Rejected e"
    by (cases "snd (basisu env (basisuCommand env (options h1) (uuidv4 env i) x) input)")
      (auto simp: encodeBasisStage_def Let_def stage_options world_simps tempFile_def)
  with assms(1-3) show ?thesis
    by (cases "encodeBasisStage env (uuidv4 env i) x h1")
      (simp add: transcodeFailure_def transcode_def Let_def)
qed

lemma jpeg_error_rejects:
  assumes "writeTemp env (uuidv4 env i) h = (h1, Resolved x)"
    and "\<not> (encodeBasis (options h1) \<and> x \<noteq> ''ktx2'')"
    and "jpegCompressionRatio (options h1) = Some q" and "q \<noteq> 0"
    and "files (world h1) (tempFile env (uuidv4 env i) x) = Some input"
    and "gm env q input = Inl e"
  shows "transcodeFailure env i h = Some e"
  using assms
  by (auto simp: transcodeFailure_def transcode_def jpegStage_def truthy_def Let_def
      stage_options world_simps)

lemma read_back_error_rejects:
  assumes "writeTemp env (uuidv4 env i) h = (h1, Resolved x)"
    and "transcode env (uuidv4 env i) x h1 = (h2, Resolved x2)"
    and "files (world h2) (tempFile env (uuidv4 env i) x2) = Some d"
    and "readFileError env (tempFile env (uuidv4 env i) x2) = Some e"
  shows "transcodeFailure env i h = Some e"
  using assms
  by (simp add: transcodeFailure_def readBack_def readFile_def Let_def stage_options
      world_simps)

text \<open>
  The read-back of a file that does not exist: the callback calls \<^verbatim>\<open>reject\<close> and goes on to
  \<^verbatim>\<open>fs.unlinkSync\<close>, which throws.
\<close>

lemma read_back_of_missing_file:
  assumes "files (world h) (tempFile env uid x) = None"
  shows "snd (readBack env uid x h) = Uncaught (ENOENT (tempFile env uid x))"
  using assms by (simp add: readBack_def Let_def stage_options world_simps)

lemma writeResources_uncaught:
  assumes "imageAsync env order
             \<lparr>document = g, written = Map.empty, settings = opts, outside = w\<rparr>
           = (st1, Uncaught e)"
  shows "writeResources env order g opts w = (st1, Uncaught e)"
  using assms by (simp add: writeResources_def)

text \<open>
  C8. The claim: when the transcode of an image fails, in a codec or in a read or write of
  a temp file, \<^verbatim>\<open>writeResources\<close> rejects with that error. Take one KTX2 image and
  \<^verbatim>\<open>encodeBasis\<close>. The basis branch has unlinked \<^verbatim>\<open>image-<uid>.ktx2\<close> (the guard of C3), so the
  read-back of the third promise fails with ENOENT. Its callback (lines 167 to 175) calls
  \<^verbatim>\<open>reject(err)\<close> with no \<^verbatim>\<open>return\<close> and no \<^verbatim>\<open>else\<close>, unlike the callbacks of lines 112, 120 and
  154: it sets the source of the image to \<^verbatim>\<open>undefined\<close> and calls \<^verbatim>\<open>fs.unlinkSync\<close> on the
  missing file, which throws inside the callback of \<^verbatim>\<open>fs.readFile\<close>. Nothing catches that
  exception: the invocation does not end as a rejection with the error of the read.
\<close>

theorem failed_read_back_is_not_a_rejection:
  "snd (writeResources exampleEnv [0] ktx2Image (plainOptions\<lparr>encodeBasis := True\<rparr>) emptyWorld)
     = Uncaught (ENOENT ''/tmp/image-uid0.ktx2'') \<and>
   source (images (document (fst (writeResources exampleEnv [0] ktx2Image
                                    (plainOptions\<lparr>encodeBasis := True\<rparr>) emptyWorld))) ! 0)
     = Undefined \<and>
   files (outside (fst (writeResources exampleEnv [0] ktx2Image
                          (plainOptions\<lparr>encodeBasis := True\<rparr>) emptyWorld)))
     ''/tmp/image-uid0.ktx2'' = None \<and>
   trace (outside (fst (writeResources exampleEnv [0] ktx2Image
                          (plainOptions\<lparr>encodeBasis := True\<rparr>) emptyWorld)))
     = [FsWriteFile ''/tmp/image-uid0.ktx2'',
        Exec ''basisu -ktx2 -mipmap   /tmp/image-uid0.ktx2 -output_path /tmp'',
        FsReadFile ''/tmp/image-uid0.ktx2'',
        FsUnlinkSync ''/tmp/image-uid0.ktx2'',
        FsReadFile ''/tmp/image-uid0.ktx2'',
        FsUnlinkSync ''/tmp/image-uid0.ktx2'']"
proof -
  have "imageAsync exampleEnv [0]
          \<lparr>document = ktx2Image, written = Map.empty,
             settings = plainOptions\<lparr>encodeBasis := True\<rparr>, outside = emptyWorld\<rparr> =
        (\<lparr>document = ktx2Image\<lparr>images := [bare Undefined]\<rparr>, written = Map.empty,
           settings = plainOptions\<lparr>encodeBasis := True\<rparr>,
           outside = \<lparr>files = Map.empty,
             trace = [FsWriteFile ''/tmp/image-uid0.ktx2'',
                      Exec ''basisu -ktx2 -mipmap   /tmp/image-uid0.ktx2 -output_path /tmp'',
                      FsReadFile ''/tmp/image-uid0.ktx2'',
                      FsUnlinkSync ''/tmp/image-uid0.ktx2'',
                      FsReadFile ''/tmp/image-uid0.ktx2'',
                      FsUnlinkSync ''/tmp/image-uid0.ktx2'']\<rparr>\<rparr>,
         Uncaught (ENOENT ''/tmp/image-uid0.ktx2''))"
    by (simp add: pass_defs chain_defs write_defs example_defs exampleSniff_def
          ktx2Image_def numberToString_0 Let_def)
  note r = writeResources_uncaught [OF this]
  show ?thesis
    unfolding r by (simp add: ktx2Image_def bare_def emptyGltf_def)
qed

subsection \<open>Resources written through the map\<close>

























subsection \<open>The passes\<close>






lemma reindex_simps [simp]:
  "uri (reindex f x) = uri x" "resourceId (reindex f x) = resourceId x"
  "bufferView (reindex f x) = f (bufferView x)"
  "reindex f (reindex f' x) = reindex (\<lambda>v. f (f' v)) x"
  by (simp_all add: reindex_def)









end
